theory Spec2Isabelle
  imports Main "HOL-Library.Char_ord" "HOL-Library.List_Lexorder" "HOL-Library.Option_ord"
    "HOL-Library.Product_Lexorder"
begin

section \<open>JavaScript values used by the controllers\<close>

subsection \<open>Strings\<close>

text \<open>
  \<open>String.prototype.includes\<close>, here \<open>str_includes\<close>: \<open>str_includes s p\<close>
  holds when \<open>p\<close> occurs in \<open>s\<close> as a contiguous substring; the empty pattern
  occurs in every string.
\<close>

fun startsWith :: "string \<Rightarrow> string \<Rightarrow> bool" where
  "startsWith s [] = True"
| "startsWith [] (c # p) = False"
| "startsWith (a # s) (c # p) = (a = c \<and> startsWith s p)"

fun str_includes :: "string \<Rightarrow> string \<Rightarrow> bool" where
  "str_includes [] p = (p = [])"
| "str_includes (a # s) p = (startsWith (a # s) p \<or> str_includes s p)"

text \<open>
  \<open>String.prototype.toLowerCase\<close> on the ASCII letters. Characters outside
  \<open>A\<close>..\<open>Z\<close> are left as they are (the model's strings are byte strings).
\<close>

definition lowerChar :: "char \<Rightarrow> char" where
  "lowerChar c =
     (if CHR ''A'' \<le> c \<and> c \<le> CHR ''Z'' then char_of (of_char c + (32::nat)) else c)"

definition toLowerCase :: "string \<Rightarrow> string" where
  "toLowerCase s = map lowerChar s"

subsection \<open>\<open>Map\<close>\<close>

text \<open>
  A JavaScript \<open>Map\<close> keeps its entries in insertion order with one entry per key:
  an association list. \<open>set\<close> on a key already present replaces the value in place,
  \<open>delete\<close> removes the entry, \<open>keys()\<close> lists the keys in order.
\<close>

type_synonym ('k, 'v) js_map = "('k \<times> 'v) list"

definition map_get :: "('k, 'v) js_map \<Rightarrow> 'k \<Rightarrow> 'v option" where
  "map_get m k = map_of m k"

fun map_set :: "('k, 'v) js_map \<Rightarrow> 'k \<Rightarrow> 'v \<Rightarrow> ('k, 'v) js_map" where
  "map_set [] k v = [(k, v)]"
| "map_set ((k', v') # m) k v =
     (if k' = k then (k, v) # m else (k', v') # map_set m k v)"

definition map_delete :: "('k, 'v) js_map \<Rightarrow> 'k \<Rightarrow> ('k, 'v) js_map" where
  "map_delete m k = filter (\<lambda>kv. fst kv \<noteq> k) m"

definition map_keys :: "('k, 'v) js_map \<Rightarrow> 'k list" where
  "map_keys m = map fst m"

definition map_clear :: "('k, 'v) js_map \<Rightarrow> ('k, 'v) js_map" where
  "map_clear m = []"

section \<open>The caches\<close>

text \<open>
  Every cache of the repository is a \<open>Map\<close> from a string key to
  \<open>{ data, timestamp }\<close>, where \<open>timestamp\<close> is \<open>Date.now()\<close> in
  milliseconds. A request is taken as instantaneous: every \<open>Date.now()\<close> of one
  request reads the same clock value \<open>now\<close>.
\<close>

record 'a cached =
  data :: 'a
  timestamp :: int

type_synonym 'a cache = "(string, 'a cached) js_map"

subsection \<open>\<open>middleware/cacheMiddleware.js\<close>\<close>

definition CACHE_TTL :: int where
  "CACHE_TTL = 5 * 60 * 1000"

record request =
  req_method :: string
  originalUrl :: string
  query_json :: string

text \<open>
  \<open>query_json\<close> stands for \<open>JSON.stringify(req.query)\<close>. The middleware either
  answers from its map, or lets the next handler run with \<open>res.json\<close> overridden so
  that the handler's response is stored under the key. The handler is a state
  transformer \<open>next\<close> returning the body it passes to \<open>res.json\<close>.
\<close>

definition mw_key :: "request \<Rightarrow> string" where
  "mw_key req = originalUrl req @ ''_'' @ query_json req"

definition cacheMiddleware ::
  "int \<Rightarrow> int \<Rightarrow> request \<Rightarrow> ('s \<Rightarrow> 'r \<times> 's) \<Rightarrow> 'r cache \<times> 's \<Rightarrow> 'r \<times> ('r cache \<times> 's)" where
  "cacheMiddleware ttl now req next = (\<lambda>(cache, s).
     if req_method req \<noteq> ''GET'' then
       (let (r, s') = next s in (r, (cache, s')))
     else
       (let key = mw_key req;
            hit = (case map_get cache key of
                     Some c \<Rightarrow> if now - timestamp c < ttl then Some (data c) else None
                   | None \<Rightarrow> None)
        in case hit of
             Some d \<Rightarrow> (d, (cache, s))
           | None \<Rightarrow>
               (let (r, s') = next s
                in (r, (map_set cache key \<lparr>data = r, timestamp = now\<rparr>, s')))))"

text \<open>
  \<open>clearCache(pattern)\<close>: the loop over \<open>cache.keys()\<close>. Deleting the
  entry under visit does not disturb the iteration of a \<open>Map\<close>, so the loop
  visits every key the map had when it started. The patient controller has the same
  function, on its own map.
\<close>

definition clearCache :: "string \<Rightarrow> 'a cache \<Rightarrow> 'a cache" where
  "clearCache pattern cache =
     fold (\<lambda>key c. if str_includes key pattern then map_delete c key else c)
       (map_keys cache) cache"

subsection \<open>\<open>routes/therapistRoutes.js\<close>: the time-to-live of each cached route\<close>

text \<open>
  The arguments the router passes to \<open>cacheMiddleware\<close>, with the comment each
  carries in the source: \<open>300\<close> (``5 minutes cache''), \<open>600\<close> (``10 minutes
  cache''), \<open>1800\<close> (``30 minutes cache'').
\<close>

definition therapists_list_ttl :: int where "therapists_list_ttl = 300"
definition therapists_summary_ttl :: int where "therapists_summary_ttl = 600"
definition therapists_specializations_ttl :: int where "therapists_specializations_ttl = 1800"
definition therapists_detail_ttl :: int where "therapists_detail_ttl = 300"

section \<open>Documents of the \<open>users\<close> collection\<close>

text \<open>
  A field of a document or of a request body is absent (\<open>undefined\<close>), \<open>null\<close>
  or holds a value. The model is typed: a field holds values of one type, the one the
  controllers write into it.
\<close>

datatype 'a field = Undefined | Null | Val 'a

text \<open>JavaScript truthiness of a string field: a non-empty string.\<close>

fun truthy_str :: "string field \<Rightarrow> bool" where
  "truthy_str (Val s) = (s \<noteq> [])"
| "truthy_str _ = False"

record therapist_info =
  info_uid :: "string field"
  info_name :: "string field"
  info_email :: "string field"
  info_title :: "string field"
  info_specialization :: "string field"

text \<open>
  One record for every document of \<open>users\<close>: patients and therapists live in the
  same collection and are told apart by \<open>role\<close>. Timestamps are the ISO strings
  \<open>new Date().toISOString()\<close> produces. Fields that the controllers only pass
  through (availability, education, certifications, notification settings) are left out.
\<close>

record user_doc =
  role :: "string field"
  uid :: "string field"
  name :: "string field"
  email :: "string field"
  title :: "string field"
  specialization :: "string field"
  bio :: "string field"
  experience :: "int field"
  isVerified :: "bool field"
  isProfileComplete :: "bool field"
  age :: "int field"
  gender :: "string field"
  concerns :: "string field"
  emergencyContact :: "string field"
  assigned_therapist :: "string field"
  assignedTherapist :: "string field"
  assignedTherapistInfo :: "therapist_info field"
  flags :: "string list field"
  documents :: "string list field"
  createdAt :: "string field"
  updatedAt :: "string field"

text \<open>The document without any field.\<close>

definition empty_doc :: user_doc where
  "empty_doc =
     \<lparr>role = Undefined, uid = Undefined, name = Undefined, email = Undefined,
      title = Undefined, specialization = Undefined, bio = Undefined,
      experience = Undefined, isVerified = Undefined, isProfileComplete = Undefined,
      age = Undefined, gender = Undefined, concerns = Undefined,
      emergencyContact = Undefined, assigned_therapist = Undefined,
      assignedTherapist = Undefined, assignedTherapistInfo = Undefined,
      flags = Undefined, documents = Undefined,
      createdAt = Undefined, updatedAt = Undefined\<rparr>"

text \<open>The collection: document id to document data.\<close>

type_synonym store = "(string \<times> user_doc) list"

definition doc_get :: "store \<Rightarrow> string \<Rightarrow> user_doc option" where
  "doc_get db i = map_of db i"

text \<open>
  The data of an \<open>update\<close> call is an object with some of the fields: a list of
  field assignments, one per key of the object. \<open>FieldValue.delete()\<close> is the
  assignment of \<open>Undefined\<close>. Spreading the object over a document
  (\<open>{...doc, ...updateData}\<close>) applies the same assignments.
\<close>

datatype assign =
    Set_updatedAt "string field"
  | Set_name "string field"
  | Set_email "string field"
  | Set_age "int field"
  | Set_gender "string field"
  | Set_concerns "string field"
  | Set_emergencyContact "string field"
  | Set_assigned_therapist "string field"
  | Set_assignedTherapist "string field"
  | Set_assignedTherapistInfo "therapist_info field"
  | Set_flags "string list field"
  | Set_documents "string list field"

fun apply_assign :: "assign \<Rightarrow> user_doc \<Rightarrow> user_doc" where
  "apply_assign (Set_updatedAt v) d = d\<lparr>updatedAt := v\<rparr>"
| "apply_assign (Set_name v) d = d\<lparr>name := v\<rparr>"
| "apply_assign (Set_email v) d = d\<lparr>email := v\<rparr>"
| "apply_assign (Set_age v) d = d\<lparr>age := v\<rparr>"
| "apply_assign (Set_gender v) d = d\<lparr>gender := v\<rparr>"
| "apply_assign (Set_concerns v) d = d\<lparr>concerns := v\<rparr>"
| "apply_assign (Set_emergencyContact v) d = d\<lparr>emergencyContact := v\<rparr>"
| "apply_assign (Set_assigned_therapist v) d = d\<lparr>assigned_therapist := v\<rparr>"
| "apply_assign (Set_assignedTherapist v) d = d\<lparr>assignedTherapist := v\<rparr>"
| "apply_assign (Set_assignedTherapistInfo v) d = d\<lparr>assignedTherapistInfo := v\<rparr>"
| "apply_assign (Set_flags v) d = d\<lparr>flags := v\<rparr>"
| "apply_assign (Set_documents v) d = d\<lparr>documents := v\<rparr>"

definition spread :: "user_doc \<Rightarrow> assign list \<Rightarrow> user_doc" where
  "spread d updateData = fold apply_assign updateData d"

text \<open>
  How a handler fails: an \<open>Error\<close> thrown to \<open>asyncHandler\<close> (with its
  message), an error response written by the handler itself (status and message), or a
  call the store refuses.
\<close>

datatype error =
    Thrown string
  | Status nat string
  | StoreFailure

text \<open>
  \<open>ref.update(data)\<close>, \<open>transaction.update\<close> and the writes of a batch change
  the named fields of an existing document; on a document that does not exist the store
  refuses the write (and with it the whole batch or transaction).
\<close>

fun doc_update :: "store \<Rightarrow> string \<Rightarrow> assign list \<Rightarrow> error + store" where
  "doc_update [] i updateData = Inl StoreFailure"
| "doc_update ((j, d) # db) i updateData =
     (if j = i then Inr ((j, spread d updateData) # db)
      else (case doc_update db i updateData of
              Inl e \<Rightarrow> Inl e
            | Inr db' \<Rightarrow> Inr ((j, d) # db')))"

text \<open>\<open>batch.commit()\<close>: the writes in the order they were added, all or none.\<close>

fun batch_commit :: "store \<Rightarrow> (string \<times> assign list) list \<Rightarrow> error + store" where
  "batch_commit db [] = Inr db"
| "batch_commit db ((i, updateData) # ws) =
     (case doc_update db i updateData of
        Inl e \<Rightarrow> Inl e
      | Inr db' \<Rightarrow> batch_commit db' ws)"

text \<open>
  \<open>db.runTransaction\<close>: the body reads the store and queues its writes
  (\<open>transaction.update\<close>); they are committed together when the body returns, and
  nothing is written when it throws. Requests are modelled one at a time, so the
  store's retry on a conflicting concurrent write does not appear.
\<close>

type_synonym writes = "(string \<times> assign list) list"

definition runTransaction ::
  "(store \<Rightarrow> error + ('r \<times> writes)) \<Rightarrow> store \<Rightarrow> error + ('r \<times> store)" where
  "runTransaction body db =
     (case body db of
        Inl e \<Rightarrow> Inl e
      | Inr (r, ws) \<Rightarrow>
          (case batch_commit db ws of
             Inl e \<Rightarrow> Inl e
           | Inr db' \<Rightarrow> Inr (r, db')))"

section \<open>The patient controller\<close>

text \<open>
  What the patient endpoints answer: \<open>{ id, ...resultData }\<close> with the three
  compatibility fields \<open>full_name\<close>, \<open>created_at\<close>, \<open>updated_at\<close>.
\<close>

record patient_response =
  resp_id :: string
  resp_doc :: user_doc
  full_name :: "string field"
  created_at :: "string field"
  updated_at :: "string field"

subsection \<open>\<open>flagPatient\<close>\<close>

text \<open>\<open>patientDoc.data().flags || []\<close>: an array is truthy, also when empty.\<close>

definition flags_or_empty :: "user_doc \<Rightarrow> string list" where
  "flags_or_empty d = (case flags d of Val xs \<Rightarrow> xs | _ \<Rightarrow> [])"

definition flagPatient_txn ::
  "string \<Rightarrow> string \<Rightarrow> string \<Rightarrow> store \<Rightarrow> error + (patient_response \<times> writes)" where
  "flagPatient_txn pid flag now db =
     (case doc_get db pid of
        None \<Rightarrow> Inl (Thrown ''Patient not found'')
      | Some patientData \<Rightarrow>
          if role patientData \<noteq> Val ''patient'' then Inl (Thrown ''Patient not found'')
          else
            (let currentFlags = flags_or_empty patientData;
                 ws = (if flag \<notin> set currentFlags
                       then [(pid, [Set_flags (Val (currentFlags @ [flag])),
                                    Set_updatedAt (Val now)])]
                       else []);
                 resultData = spread patientData [Set_flags (Val (currentFlags @ [flag]))]
             in Inr (\<lparr>resp_id = pid, resp_doc = resultData,
                      full_name = name resultData,
                      created_at = createdAt resultData,
                      updated_at = Val now\<rparr>, ws)))"

text \<open>
  The handler: the transaction, then \<open>clearCache(`patient_${id}`)\<close> and
  \<open>clearCache('patients')\<close> on the patient controller's cache. When the
  transaction throws, neither the store nor the cache changes.
\<close>

definition clear_patient_caches :: "string \<Rightarrow> 'a cache \<Rightarrow> 'a cache" where
  "clear_patient_caches pid cache =
     clearCache ''patients'' (clearCache (''patient_'' @ pid) cache)"

definition flagPatient ::
  "string \<Rightarrow> string \<Rightarrow> string \<Rightarrow> store \<times> 'a cache \<Rightarrow> error + (patient_response \<times> store \<times> 'a cache)" where
  "flagPatient pid flag now = (\<lambda>(db, cache).
     case runTransaction (flagPatient_txn pid flag now) db of
       Inl e \<Rightarrow> Inl e
     | Inr (result, db') \<Rightarrow> Inr (result, db', clear_patient_caches pid cache))"

subsection \<open>\<open>updatePatient\<close>\<close>

text \<open>The fields \<open>updatePatient\<close> reads from \<open>req.body\<close>.\<close>

record patient_body =
  b_name :: "string field"
  b_email :: "string field"
  b_age :: "int field"
  b_gender :: "string field"
  b_concerns :: "string field"
  b_emergencyContact :: "string field"
  b_assigned_therapist :: "string field"
  b_flags :: "string list field"
  b_documents :: "string list field"

text \<open>
  \<open>updateData\<close> starts as \<open>{ updatedAt }\<close>; a profile field is added when it is
  supplied and differs (\<open>!==\<close>) from the stored one, an admin-only field whenever
  it is supplied. \<open>Object.keys(updateData).length\<close> is the number of assignments.
  The values are primitives, on which \<open>!==\<close> is inequality of values.
\<close>

definition updateData_of :: "patient_body \<Rightarrow> user_doc \<Rightarrow> string \<Rightarrow> assign list" where
  "updateData_of body currentData now =
     [Set_updatedAt (Val now)]
     @ (if b_name body \<noteq> Undefined \<and> b_name body \<noteq> name currentData
        then [Set_name (b_name body)] else [])
     @ (if b_email body \<noteq> Undefined \<and> b_email body \<noteq> email currentData
        then [Set_email (b_email body)] else [])
     @ (if b_age body \<noteq> Undefined \<and> b_age body \<noteq> age currentData
        then [Set_age (b_age body)] else [])
     @ (if b_gender body \<noteq> Undefined \<and> b_gender body \<noteq> gender currentData
        then [Set_gender (b_gender body)] else [])
     @ (if b_concerns body \<noteq> Undefined \<and> b_concerns body \<noteq> concerns currentData
        then [Set_concerns (b_concerns body)] else [])
     @ (if b_emergencyContact body \<noteq> Undefined
           \<and> b_emergencyContact body \<noteq> emergencyContact currentData
        then [Set_emergencyContact (b_emergencyContact body)] else [])
     @ (if b_assigned_therapist body \<noteq> Undefined
        then [Set_assigned_therapist (b_assigned_therapist body)] else [])
     @ (if b_flags body \<noteq> Undefined then [Set_flags (b_flags body)] else [])
     @ (if b_documents body \<noteq> Undefined then [Set_documents (b_documents body)] else [])"

definition updatePatient_txn ::
  "string \<Rightarrow> patient_body \<Rightarrow> string \<Rightarrow> store \<Rightarrow> error + (patient_response \<times> writes)" where
  "updatePatient_txn pid body now db =
     (case doc_get db pid of
        None \<Rightarrow> Inl (Thrown ''Patient not found'')
      | Some currentData \<Rightarrow>
          if role currentData \<noteq> Val ''patient'' then Inl (Thrown ''Patient not found'')
          else
            (let updateData = updateData_of body currentData now;
                 ws = (if length updateData > 1 then [(pid, updateData)] else []);
                 resultData = spread currentData updateData
             in Inr (\<lparr>resp_id = pid, resp_doc = resultData,
                      full_name = name resultData,
                      created_at = createdAt resultData,
                      updated_at = updatedAt resultData\<rparr>, ws)))"

definition updatePatient ::
  "string \<Rightarrow> patient_body \<Rightarrow> string \<Rightarrow> store \<times> 'a cache \<Rightarrow> error + (patient_response \<times> store \<times> 'a cache)" where
  "updatePatient pid body now = (\<lambda>(db, cache).
     case runTransaction (updatePatient_txn pid body now) db of
       Inl e \<Rightarrow> Inl e
     | Inr (result, db') \<Rightarrow> Inr (result, db', clear_patient_caches pid cache))"

section \<open>Queries on the collection\<close>

text \<open>
  The store is an external collaborator; this is the part of its query interface the
  controllers use. A query is a conjunction of \<open>where\<close> clauses, an optional
  \<open>orderBy(field, 'desc')\<close>, an optional \<open>startAfter(snapshot)\<close> and an
  optional \<open>limit\<close>.
\<close>

datatype where_clause =
    Where_role string
  | Where_specialization string
  | Where_isVerified bool
  | Where_isProfileComplete bool
  | Where_assigned_therapist string
  | Where_assignedTherapist "string field"
  | Where_assignedTherapist_in "string field list"
  | Where_email "string field"
  | Where_uid "string field"

datatype order_field = By_createdAt | By_updatedAt

record fs_query =
  q_where :: "where_clause list"
  q_orderBy :: "order_field option"
  q_startAfter :: "string option"
  q_limit :: "nat option"

text \<open>
  An equality clause matches the documents whose field holds that value. The store
  refuses \<open>undefined\<close> as a comparison value.
\<close>

fun clause_ok :: "where_clause \<Rightarrow> bool" where
  "clause_ok (Where_assignedTherapist v) = (v \<noteq> Undefined)"
| "clause_ok (Where_assignedTherapist_in vs) = (Undefined \<notin> set vs)"
| "clause_ok (Where_email v) = (v \<noteq> Undefined)"
| "clause_ok (Where_uid v) = (v \<noteq> Undefined)"
| "clause_ok _ = True"

fun matches :: "where_clause \<Rightarrow> string \<times> user_doc \<Rightarrow> bool" where
  "matches (Where_role r) (i, d) = (role d = Val r)"
| "matches (Where_specialization s) (i, d) = (specialization d = Val s)"
| "matches (Where_isVerified b) (i, d) = (isVerified d = Val b)"
| "matches (Where_isProfileComplete b) (i, d) = (isProfileComplete d = Val b)"
| "matches (Where_assigned_therapist t) (i, d) = (assigned_therapist d = Val t)"
| "matches (Where_assignedTherapist v) (i, d) = (assignedTherapist d = v)"
| "matches (Where_assignedTherapist_in vs) (i, d) =
     (assignedTherapist d \<noteq> Undefined \<and> assignedTherapist d \<in> set vs)"
| "matches (Where_email v) (i, d) = (email d = v)"
| "matches (Where_uid v) (i, d) = (uid d = v)"

text \<open>
  Ordering. A document without the order field is not part of an ordered result. The
  values are ordered with \<open>null\<close> first and strings lexicographically, which on
  the ISO timestamps is the order of time; ties are broken by document id. The
  controllers only order descending.
\<close>

fun order_value :: "order_field \<Rightarrow> user_doc \<Rightarrow> string field" where
  "order_value By_createdAt d = createdAt d"
| "order_value By_updatedAt d = updatedAt d"

fun field_key :: "string field \<Rightarrow> string option" where
  "field_key (Val s) = Some s"
| "field_key _ = None"

definition order_key :: "order_field \<Rightarrow> string \<times> user_doc \<Rightarrow> string option \<times> string" where
  "order_key f = (\<lambda>(i, d). (field_key (order_value f d), i))"

definition ordered_desc :: "order_field \<Rightarrow> store \<Rightarrow> store" where
  "ordered_desc f docs =
     rev (sort_key (order_key f) (filter (\<lambda>(i, d). order_value f d \<noteq> Undefined) docs))"

text \<open>
  \<open>startAfter(snapshot)\<close> continues strictly after the snapshot's place in the
  order; the store refuses a snapshot that lacks the order field.
\<close>

definition cursor_ok :: "store \<Rightarrow> fs_query \<Rightarrow> bool" where
  "cursor_ok db q =
     (case (q_orderBy q, q_startAfter q) of
        (Some f, Some c) \<Rightarrow>
          (case doc_get db c of
             Some cd \<Rightarrow> order_value f cd \<noteq> Undefined
           | None \<Rightarrow> True)
      | _ \<Rightarrow> True)"

definition run_query :: "store \<Rightarrow> fs_query \<Rightarrow> error + store" where
  "run_query db q =
     (if list_all clause_ok (q_where q) \<and> cursor_ok db q
      then
        (let matching = filter (\<lambda>x. list_all (\<lambda>w. matches w x) (q_where q)) db;
             ordered = (case q_orderBy q of
                          None \<Rightarrow> sort_key fst matching
                        | Some f \<Rightarrow> ordered_desc f matching);
             started = (case (q_orderBy q, q_startAfter q) of
                          (Some f, Some c) \<Rightarrow>
                            (case doc_get db c of
                               Some cd \<Rightarrow>
                                 filter (\<lambda>x. order_key f x < order_key f (c, cd)) ordered
                             | None \<Rightarrow> ordered)
                        | _ \<Rightarrow> ordered)
         in Inr (case q_limit q of None \<Rightarrow> started | Some n \<Rightarrow> take n started))
      else Inl StoreFailure)"

section \<open>Assigning patients and therapists\<close>

subsection \<open>\<open>assignPatientsToTherapist\<close> (therapist controller)\<close>

record assign_response =
  assign_message :: string
  assignedCount :: nat

definition therapist_info_of :: "user_doc \<Rightarrow> therapist_info" where
  "therapist_info_of therapistData =
     \<lparr>info_uid = uid therapistData, info_name = name therapistData,
      info_email = email therapistData, info_title = title therapistData,
      info_specialization = specialization therapistData\<rparr>"

text \<open>
  \<open>patientIds\<close> is \<open>None\<close> when the body has none. The batch holds, in this
  order: the clearing of every patient the query finds assigned, the assignment of each
  id of \<open>patientIds\<close>, the therapist's new \<open>updatedAt\<close>. The \<open>catch\<close>
  block answers 500 on any failure of the store. Success clears the therapist
  controller's cache.
\<close>

definition assign_batch :: "string \<Rightarrow> user_doc \<Rightarrow> store \<Rightarrow> string list option \<Rightarrow> string \<Rightarrow> writes" where
  "assign_batch tid therapistData currentPatients patientIds now =
     map (\<lambda>(i, d). (i, [Set_assignedTherapist Undefined,
                         Set_assignedTherapistInfo Undefined,
                         Set_updatedAt (Val now)])) currentPatients
     @ (case patientIds of
          Some ids \<Rightarrow>
            map (\<lambda>patientId. (patientId,
                   [Set_assignedTherapist (uid therapistData),
                    Set_assignedTherapistInfo (Val (therapist_info_of therapistData)),
                    Set_updatedAt (Val now)])) ids
        | None \<Rightarrow> [])
     @ [(tid, [Set_updatedAt (Val now)])]"

text \<open>
  The store refuses an update that holds \<open>undefined\<close>: the projection written
  to the new patients needs the five display fields of the therapist.
\<close>

definition info_defined :: "user_doc \<Rightarrow> bool" where
  "info_defined therapistData \<longleftrightarrow>
     uid therapistData \<noteq> Undefined \<and> name therapistData \<noteq> Undefined \<and>
     email therapistData \<noteq> Undefined \<and> title therapistData \<noteq> Undefined \<and>
     specialization therapistData \<noteq> Undefined"

definition assignPatientsToTherapist ::
  "string \<Rightarrow> string list option \<Rightarrow> string \<Rightarrow> store \<times> 'a cache \<Rightarrow> error + (assign_response \<times> store \<times> 'a cache)" where
  "assignPatientsToTherapist tid patientIds now = (\<lambda>(db, cache).
     case doc_get db tid of
       None \<Rightarrow> Inl (Status 404 ''Therapist not found'')
     | Some therapistData \<Rightarrow>
         if role therapistData \<noteq> Val ''professional''
         then Inl (Status 404 ''Therapist not found'')
         else
           (case run_query db
                   \<lparr>q_where = [Where_role ''patient'',
                                Where_assignedTherapist (uid therapistData)],
                    q_orderBy = None, q_startAfter = None, q_limit = None\<rparr> of
              Inl e \<Rightarrow> Inl (Status 500 ''Failed to assign patients'')
            | Inr currentPatients \<Rightarrow>
                (case (if (case patientIds of Some ids \<Rightarrow> ids \<noteq> [] | None \<Rightarrow> False)
                          \<and> \<not> info_defined therapistData
                       then Inl StoreFailure
                       else batch_commit db
                              (assign_batch tid therapistData currentPatients patientIds now)) of
                   Inl e \<Rightarrow> Inl (Status 500 ''Failed to assign patients'')
                 | Inr db' \<Rightarrow>
                     Inr (\<lparr>assign_message =
                              ''Successfully '' @
                              (if (case patientIds of Some ids \<Rightarrow> ids \<noteq> [] | None \<Rightarrow> False)
                               then ''assigned'' else ''unassigned'') @ '' patients'',
                            assignedCount =
                              (case patientIds of Some ids \<Rightarrow> length ids | None \<Rightarrow> 0)\<rparr>,
                          db', map_clear cache))))"

subsection \<open>\<open>assignTherapistToPatient\<close> (patient controller)\<close>

definition assignTherapistToPatient_txn ::
  "string \<Rightarrow> string \<Rightarrow> string \<Rightarrow> store \<Rightarrow> error + (patient_response \<times> writes)" where
  "assignTherapistToPatient_txn pid therapistId now db =
     (case doc_get db pid of
        None \<Rightarrow> Inl (Thrown ''Patient not found'')
      | Some patientData \<Rightarrow>
          if role patientData \<noteq> Val ''patient'' then Inl (Thrown ''Patient not found'')
          else
            (case doc_get db therapistId of
               None \<Rightarrow> Inl (Thrown ''Invalid therapist ID'')
             | Some therapistData \<Rightarrow>
                 if role therapistData \<noteq> Val ''professional''
                 then Inl (Thrown ''Invalid therapist ID'')
                 else
                   (let resultData =
                          spread patientData [Set_assigned_therapist (Val therapistId)]
                    in Inr (\<lparr>resp_id = pid, resp_doc = resultData,
                             full_name = name resultData,
                             created_at = createdAt resultData,
                             updated_at = Val now\<rparr>,
                            [(pid, [Set_assigned_therapist (Val therapistId),
                                    Set_updatedAt (Val now)])]))))"

definition assignTherapistToPatient ::
  "string \<Rightarrow> string \<Rightarrow> string \<Rightarrow> store \<times> 'a cache \<Rightarrow> error + (patient_response \<times> store \<times> 'a cache)" where
  "assignTherapistToPatient pid therapistId now = (\<lambda>(db, cache).
     case runTransaction (assignTherapistToPatient_txn pid therapistId now) db of
       Inl e \<Rightarrow> Inl e
     | Inr (result, db') \<Rightarrow> Inr (result, db', clear_patient_caches pid cache))"

section \<open>The therapist controller: listing\<close>

subsection \<open>The controller's cache helpers\<close>

text \<open>
  \<open>getCachedData(key)\<close> answers \<open>null\<close> (here \<open>None\<close>) on a miss; the
  time-to-live is the controller's own \<open>CACHE_TTL\<close> of five minutes.
\<close>

definition CACHE_TTL_therapists :: int where
  "CACHE_TTL_therapists = 5 * 60 * 1000"

definition getCachedData :: "'a cache \<Rightarrow> int \<Rightarrow> string \<Rightarrow> 'a option" where
  "getCachedData cache now key =
     (case map_get cache key of
        Some c \<Rightarrow> if now - timestamp c < CACHE_TTL_therapists then Some (data c) else None
      | None \<Rightarrow> None)"

definition setCachedData :: "'a cache \<Rightarrow> int \<Rightarrow> string \<Rightarrow> 'a \<Rightarrow> 'a cache" where
  "setCachedData cache now key d = map_set cache key \<lparr>data = d, timestamp = now\<rparr>"

subsection \<open>\<open>transformTherapistData\<close>\<close>

record therapist =
  t_id :: string
  t_uid :: "string field"
  t_name :: "string field"
  t_email :: "string field"
  t_title :: string
  t_specialization :: "string field"
  t_bio :: string
  t_experience :: int
  t_isVerified :: bool
  t_isProfileComplete :: bool
  t_role :: "string field"
  t_createdAt :: "string field"
  t_updatedAt :: "string field"
  assignedPatientsCount :: "nat option"

text \<open>\<open>x || ''\<close>, \<open>x || 0\<close> and \<open>x || false\<close>.\<close>

fun or_empty :: "string field \<Rightarrow> string" where
  "or_empty (Val s) = s"
| "or_empty _ = []"

fun or_zero :: "int field \<Rightarrow> int" where
  "or_zero (Val n) = n"
| "or_zero _ = 0"

fun or_false :: "bool field \<Rightarrow> bool" where
  "or_false (Val b) = b"
| "or_false _ = False"

text \<open>
  \<open>assignedPatientsCount\<close> is not a key of the transformed object; the listing adds
  it afterwards.
\<close>

definition transformTherapistData :: "string \<times> user_doc \<Rightarrow> therapist" where
  "transformTherapistData = (\<lambda>(i, d).
     \<lparr>t_id = i, t_uid = uid d, t_name = name d, t_email = email d,
      t_title = or_empty (title d), t_specialization = specialization d,
      t_bio = or_empty (bio d), t_experience = or_zero (experience d),
      t_isVerified = or_false (isVerified d),
      t_isProfileComplete = or_false (isProfileComplete d),
      t_role = role d, t_createdAt = createdAt d, t_updatedAt = updatedAt d,
      assignedPatientsCount = None\<rparr>)"

subsection \<open>\<open>getTherapists\<close>\<close>

text \<open>
  \<open>req.query\<close>: a parameter is \<open>None\<close> when the request does not carry it.
  \<open>tq_pageSize\<close> is \<open>Number.parseInt(pageSize)\<close>; the model covers the
  requests whose page size parses to a natural number.
\<close>

record therapists_query =
  tq_pageSize :: "nat option"
  tq_lastDocId :: "string option"
  tq_keyword :: "string option"
  tq_specialization :: "string option"
  tq_isVerified :: "string option"
  tq_isProfileComplete :: "string option"
  tq_experience :: "string option"

text \<open>The defaults of the destructuring: \<open>pageSize = 15\<close>, the strings \<open>''\<close>.\<close>

definition param :: "string option \<Rightarrow> string" where
  "param p = (case p of Some s \<Rightarrow> s | None \<Rightarrow> [])"

definition pageSize_of :: "therapists_query \<Rightarrow> nat" where
  "pageSize_of q = (case tq_pageSize q of Some k \<Rightarrow> k | None \<Rightarrow> 15)"

text \<open>
  A page as the list endpoints answer it. \<open>items\<close> is the field
  \<open>therapists\<close> (or \<open>patients\<close>) of the response.
\<close>

record 'a page_result =
  items :: "'a list"
  hasMore :: bool
  lastDocId :: "string option"
  total :: nat

text \<open>
  The cursor: \<open>lastDocId\<close> is used when it is truthy and names a document that
  exists.
\<close>

definition cursor_of :: "store \<Rightarrow> string option \<Rightarrow> string option" where
  "cursor_of db lastId =
     (case lastId of
        None \<Rightarrow> None
      | Some c \<Rightarrow> if c = [] then None
                  else (case doc_get db c of Some d \<Rightarrow> Some c | None \<Rightarrow> None))"

definition getTherapists_query :: "therapists_query \<Rightarrow> store \<Rightarrow> fs_query" where
  "getTherapists_query q db =
     \<lparr>q_where =
        [Where_role ''professional'']
        @ (if param (tq_specialization q) \<noteq> [] \<and> param (tq_specialization q) \<noteq> ''all''
           then [Where_specialization (param (tq_specialization q))] else [])
        @ (if param (tq_isVerified q) \<noteq> [] \<and> param (tq_isVerified q) \<noteq> ''all''
           then [Where_isVerified (param (tq_isVerified q) = ''true'')] else [])
        @ (if param (tq_isProfileComplete q) \<noteq> [] \<and> param (tq_isProfileComplete q) \<noteq> ''all''
           then [Where_isProfileComplete (param (tq_isProfileComplete q) = ''true'')] else []),
      q_orderBy = Some By_updatedAt,
      q_startAfter = cursor_of db (tq_lastDocId q),
      q_limit = Some (pageSize_of q + 1)\<rparr>"

text \<open>
  The extra document: \<open>if (snapshot.docs.length > pageSize) { hasMore = true;
  snapshot.docs.pop() }\<close>.
\<close>

definition drop_extra :: "nat \<Rightarrow> 'a list \<Rightarrow> 'a list" where
  "drop_extra pageSize docs = (if length docs > pageSize then butlast docs else docs)"

text \<open>The keyword search: \<open>x?.toLowerCase().includes(keywordLower)\<close> on five fields.\<close>

fun field_includes :: "string field \<Rightarrow> string \<Rightarrow> bool" where
  "field_includes (Val s) kw = str_includes (toLowerCase s) kw"
| "field_includes _ kw = False"

definition therapist_keyword_match :: "string \<Rightarrow> therapist \<Rightarrow> bool" where
  "therapist_keyword_match keywordLower t \<longleftrightarrow>
     field_includes (t_name t) keywordLower \<or>
     field_includes (t_email t) keywordLower \<or>
     field_includes (t_specialization t) keywordLower \<or>
     str_includes (toLowerCase (t_title t)) keywordLower \<or>
     str_includes (toLowerCase (t_bio t)) keywordLower"

text \<open>The experience buckets: the \<open>switch\<close>, with \<open>default: return true\<close>.\<close>

definition experience_match :: "string \<Rightarrow> therapist \<Rightarrow> bool" where
  "experience_match bucket t =
     (if bucket = ''0-2'' then t_experience t \<ge> 0 \<and> t_experience t \<le> 2
      else if bucket = ''3-5'' then t_experience t \<ge> 3 \<and> t_experience t \<le> 5
      else if bucket = ''6-10'' then t_experience t \<ge> 6 \<and> t_experience t \<le> 10
      else if bucket = ''10+'' then t_experience t > 10
      else True)"

definition client_filter :: "therapists_query \<Rightarrow> therapist list \<Rightarrow> therapist list" where
  "client_filter q therapists =
     (let byKeyword =
            (if param (tq_keyword q) \<noteq> []
             then filter (therapist_keyword_match (toLowerCase (param (tq_keyword q)))) therapists
             else therapists)
      in if param (tq_experience q) \<noteq> [] \<and> param (tq_experience q) \<noteq> ''all''
         then filter (experience_match (param (tq_experience q))) byKeyword
         else byKeyword)"

text \<open>
  The chunks of at most ten ids:
  \<open>for (let i = 0; i < ids.length; i += 10) chunks.push(ids.slice(i, i + 10))\<close>.
\<close>

function chunks_from :: "nat \<Rightarrow> 'a list \<Rightarrow> 'a list list" where
  "chunks_from i ids =
     (if i < length ids then take 10 (drop i ids) # chunks_from (i + 10) ids else [])"
  by pat_completeness auto
termination
  by (relation "measure (\<lambda>(i, ids). length ids - i)") auto

declare chunks_from.simps [simp del]

text \<open>
  The patient counts: one \<open>in\<close> query per chunk; every returned patient with a
  truthy \<open>assignedTherapist\<close> adds one to the count kept under that value.
\<close>

definition count_lookup_query :: "string field list \<Rightarrow> fs_query" where
  "count_lookup_query chunk =
     \<lparr>q_where = [Where_role ''patient'', Where_assignedTherapist_in chunk],
      q_orderBy = None, q_startAfter = None, q_limit = None\<rparr>"

definition patientCounts_queries :: "string field list \<Rightarrow> fs_query list" where
  "patientCounts_queries therapistIds =
     (if length therapistIds > 0 then map count_lookup_query (chunks_from 0 therapistIds)
      else [])"

definition count_doc :: "string \<times> user_doc \<Rightarrow> (string \<rightharpoonup> nat) \<Rightarrow> (string \<rightharpoonup> nat)" where
  "count_doc = (\<lambda>(i, d) counts.
     case assignedTherapist d of
       Val a \<Rightarrow> if a \<noteq> []
                then counts(a \<mapsto> (case counts a of Some n \<Rightarrow> n | None \<Rightarrow> 0) + 1)
                else counts
     | _ \<Rightarrow> counts)"

fun run_count_queries ::
  "store \<Rightarrow> fs_query list \<Rightarrow> (string \<rightharpoonup> nat) \<Rightarrow> error + (string \<rightharpoonup> nat)" where
  "run_count_queries db [] counts = Inr counts"
| "run_count_queries db (q # qs) counts =
     (case run_query db q of
        Inl e \<Rightarrow> Inl e
      | Inr docs \<Rightarrow> run_count_queries db qs (fold count_doc docs counts))"

text \<open>\<open>patientCounts[therapist.uid] || 0\<close>; a therapist whose uid is \<open>null\<close> gets 0.\<close>

definition count_for :: "(string \<rightharpoonup> nat) \<Rightarrow> string field \<Rightarrow> nat" where
  "count_for counts u =
     (case u of
        Val s \<Rightarrow> (case counts s of Some n \<Rightarrow> n | None \<Rightarrow> 0)
      | _ \<Rightarrow> 0)"

text \<open>
  The body of the \<open>try\<close> block: what is computed from the store. Any failure of
  the store is answered by the \<open>catch\<close> block with status 500.
\<close>

definition getTherapists_fetch :: "therapists_query \<Rightarrow> store \<Rightarrow> error + therapist page_result" where
  "getTherapists_fetch q db =
     (case run_query db (getTherapists_query q db) of
        Inl e \<Rightarrow> Inl (Status 500 ''Failed to fetch therapists'')
      | Inr snapshot \<Rightarrow>
          (let docs = drop_extra (pageSize_of q) snapshot;
               therapists = client_filter q (map transformTherapistData docs)
           in case run_count_queries db (patientCounts_queries (map t_uid therapists))
                     Map.empty of
                Inl e \<Rightarrow> Inl (Status 500 ''Failed to fetch therapists'')
              | Inr patientCounts \<Rightarrow>
                  Inr \<lparr>items =
                         map (\<lambda>t. t\<lparr>assignedPatientsCount :=
                                       Some (count_for patientCounts (t_uid t))\<rparr>)
                           therapists,
                       hasMore = (length snapshot > pageSize_of q),
                       lastDocId = (if length docs > 0 then Some (fst (last docs)) else None),
                       total = length therapists\<rparr>))"

text \<open>
  The handler. The cached page is answered only to a request without
  \<open>lastDocId\<close>, and only such a request stores its page. \<open>tq_json\<close> stands
  for \<open>JSON.stringify(req.query)\<close>. An error response is not stored.
\<close>

definition getTherapists ::
  "therapists_query \<Rightarrow> string \<Rightarrow> int \<Rightarrow> store \<times> therapist page_result cache \<Rightarrow>
     (error + therapist page_result) \<times> (store \<times> therapist page_result cache)" where
  "getTherapists q tq_json now = (\<lambda>(db, cache).
     let cacheKey = ''therapists_'' @ tq_json;
         cachedResult = getCachedData cache now cacheKey;
         noCursor = (case tq_lastDocId q of None \<Rightarrow> True | Some c \<Rightarrow> c = [])
     in case (cachedResult, noCursor) of
          (Some result, True) \<Rightarrow> (Inr result, (db, cache))
        | _ \<Rightarrow>
            (case getTherapists_fetch q db of
               Inl e \<Rightarrow> (Inl e, (db, cache))
             | Inr result \<Rightarrow>
                 (Inr result,
                  (db, if noCursor then setCachedData cache now cacheKey result else cache))))"

section \<open>The patient controller: listing\<close>

subsection \<open>The controller's cache helper\<close>

text \<open>
  \<open>getCachedData(key, fetchFunction, ttl = CACHE_TTL)\<close> answers the cached data
  while it is fresh; otherwise it runs \<open>fetchFunction\<close> and stores what it
  returns. When \<open>fetchFunction\<close> throws, nothing is stored. The fetch is pure
  in the model, so its result is passed in place of the function.
\<close>

definition CACHE_TTL_patients :: int where
  "CACHE_TTL_patients = 5 * 60 * 1000"

definition getCachedData_or_fetch ::
  "'a cache \<Rightarrow> int \<Rightarrow> string \<Rightarrow> (error + 'a) \<Rightarrow> int \<Rightarrow> (error + 'a) \<times> 'a cache" where
  "getCachedData_or_fetch cache now key fetched ttl =
     (let hit = (case map_get cache key of
                   Some c \<Rightarrow> if now - timestamp c < ttl then Some (data c) else None
                 | None \<Rightarrow> None)
      in case hit of
           Some d \<Rightarrow> (Inr d, cache)
         | None \<Rightarrow>
             (case fetched of
                Inl e \<Rightarrow> (Inl e, cache)
              | Inr d \<Rightarrow> (Inr d, map_set cache key \<lparr>data = d, timestamp = now\<rparr>)))"

subsection \<open>\<open>getPatients\<close>\<close>

text \<open>
  \<open>pq_pageSize\<close> is \<open>Number(req.query.pageSize)\<close> where that is a natural
  number; \<open>Number(...) || 10\<close> turns a missing page size and \<open>0\<close> into 10.
\<close>

record patients_query =
  pq_pageSize :: "nat option"
  pq_lastDocId :: "string option"
  pq_keyword :: "string option"
  pq_profileComplete :: "string option"
  pq_therapistId :: "string option"

definition patients_pageSize :: "patients_query \<Rightarrow> nat" where
  "patients_pageSize q = (case pq_pageSize q of Some k \<Rightarrow> if k = 0 then 10 else k | None \<Rightarrow> 10)"

text \<open>
  A patient of the page: the document with its id, the compatibility fields, and the
  therapist's projection when the lookup found one. The display fields \<open>dob\<close>,
  \<open>phone\<close> and \<open>notes\<close> are left out.
\<close>

record therapist_ref =
  ref_id :: string
  ref_full_name :: "string field"
  ref_email :: "string field"

record patient_row =
  p_id :: string
  p_data :: user_doc
  p_full_name :: "string field"
  p_created_at :: "string field"
  p_updated_at :: "string field"
  assigned_therapist_info :: "therapist_ref option"

definition patient_row_of :: "string \<times> user_doc \<Rightarrow> patient_row" where
  "patient_row_of = (\<lambda>(i, d).
     \<lparr>p_id = i, p_data = d, p_full_name = name d, p_created_at = createdAt d,
      p_updated_at = updatedAt d, assigned_therapist_info = None\<rparr>)"

definition getPatients_query :: "patients_query \<Rightarrow> store \<Rightarrow> fs_query" where
  "getPatients_query q db =
     \<lparr>q_where =
        [Where_role ''patient'']
        @ (case pq_profileComplete q of
             Some s \<Rightarrow> if s \<noteq> [] then [Where_isProfileComplete (s = ''true'')] else []
           | None \<Rightarrow> [])
        @ (if param (pq_therapistId q) \<noteq> []
           then [Where_assigned_therapist (param (pq_therapistId q))] else []),
      q_orderBy = Some By_createdAt,
      q_startAfter = cursor_of db (pq_lastDocId q),
      q_limit = Some (patients_pageSize q + 1)\<rparr>"

text \<open>
  \<open>therapistIds\<close> is a \<open>Set\<close>: the truthy \<open>assigned_therapist\<close> values of
  the page, each once, in the order of first occurrence.
\<close>

definition set_add :: "'a \<Rightarrow> 'a list \<Rightarrow> 'a list" where
  "set_add x s = (if x \<in> set s then s else s @ [x])"

definition therapistIds_of :: "patient_row list \<Rightarrow> string list" where
  "therapistIds_of patientData =
     fold (\<lambda>p s. if truthy_str (assigned_therapist (p_data p))
                  then set_add (or_empty (assigned_therapist (p_data p))) s else s)
       patientData []"

text \<open>
  The therapist lookup. When the set is not empty the handler builds the query
  \<open>.where(db.FieldPath.documentId(), 'in', Array.from(therapistIds))\<close>. Here
  \<open>db\<close> is the Firestore instance exported by \<open>config/firebase.js\<close>
  (\<open>admin.firestore()\<close>), which has no property \<open>FieldPath\<close>: the argument
  \<open>db.FieldPath.documentId()\<close> is evaluated before \<open>where\<close> is called and
  throws a \<open>TypeError\<close>. No lookup reaches the store, and \<open>therapistMap\<close>
  is still empty whenever the code after the block runs.
\<close>

definition therapistMap_of :: "string list \<Rightarrow> error + (string \<rightharpoonup> therapist_ref)" where
  "therapistMap_of therapistIds =
     (if length therapistIds > 0 then Inl (Thrown ''TypeError'') else Inr Map.empty)"

definition attach_therapist :: "(string \<rightharpoonup> therapist_ref) \<Rightarrow> patient_row \<Rightarrow> patient_row" where
  "attach_therapist therapistMap patient =
     (if truthy_str (assigned_therapist (p_data patient))
      then (case therapistMap (or_empty (assigned_therapist (p_data patient))) of
              Some info \<Rightarrow> patient\<lparr>assigned_therapist_info := Some info\<rparr>
            | None \<Rightarrow> patient)
      else patient)"

text \<open>
  The keyword search calls \<open>toLowerCase\<close> on \<open>name\<close> and, when the name does
  not match, on \<open>email\<close>, without a guard: a missing field throws a
  \<open>TypeError\<close>, which ends the request.
\<close>

definition patient_keyword_match :: "string \<Rightarrow> patient_row \<Rightarrow> error + bool" where
  "patient_keyword_match searchTerm patient =
     (case name (p_data patient) of
        Val n \<Rightarrow>
          if str_includes (toLowerCase n) searchTerm then Inr True
          else (case email (p_data patient) of
                  Val e \<Rightarrow> Inr (str_includes (toLowerCase e) searchTerm)
                | _ \<Rightarrow> Inl (Thrown ''TypeError''))
      | _ \<Rightarrow> Inl (Thrown ''TypeError''))"

fun filter_throwing :: "('a \<Rightarrow> error + bool) \<Rightarrow> 'a list \<Rightarrow> error + 'a list" where
  "filter_throwing p [] = Inr []"
| "filter_throwing p (x # xs) =
     (case p x of
        Inl e \<Rightarrow> Inl e
      | Inr b \<Rightarrow>
          (case filter_throwing p xs of
             Inl e \<Rightarrow> Inl e
           | Inr ys \<Rightarrow> Inr (if b then x # ys else ys)))"

text \<open>
  \<open>fetchPatients\<close>. It has no \<open>catch\<close>: a failure of the store and the
  \<open>TypeError\<close> of the lookup reach \<open>asyncHandler\<close> as they are.
\<close>

definition getPatients_fetch :: "patients_query \<Rightarrow> store \<Rightarrow> error + patient_row page_result" where
  "getPatients_fetch q db =
     (case run_query db (getPatients_query q db) of
        Inl e \<Rightarrow> Inl e
      | Inr snapshot \<Rightarrow>
          (let docs = drop_extra (patients_pageSize q) snapshot;
               patientData = map patient_row_of docs
           in case therapistMap_of (therapistIds_of patientData) of
                Inl e \<Rightarrow> Inl e
              | Inr therapistMap \<Rightarrow>
                  (let attached = map (attach_therapist therapistMap) patientData
                   in case (if param (pq_keyword q) \<noteq> []
                            then filter_throwing
                                   (patient_keyword_match (toLowerCase (param (pq_keyword q))))
                                   attached
                            else Inr attached) of
                        Inl e \<Rightarrow> Inl e
                      | Inr filteredPatients \<Rightarrow>
                          Inr \<lparr>items = filteredPatients,
                               hasMore = (length snapshot > patients_pageSize q),
                               lastDocId = (if length patientData > 0
                                            then Some (p_id (last patientData)) else None),
                               total = length filteredPatients\<rparr>)))"

text \<open>The cache key: the page size in decimal and the four string parameters.\<close>

function show_nat :: "nat \<Rightarrow> string" where
  "show_nat n =
     (if n < 10 then [char_of (48 + n)]
      else show_nat (n div 10) @ [char_of (48 + n mod 10)])"
  by pat_completeness auto
termination
  by (relation "measure id") auto

declare show_nat.simps [simp del]

definition patients_cacheKey :: "patients_query \<Rightarrow> string" where
  "patients_cacheKey q =
     ''patients_'' @ show_nat (patients_pageSize q) @ ''_''
     @ (if param (pq_lastDocId q) \<noteq> [] then param (pq_lastDocId q) else ''start'') @ ''_''
     @ param (pq_keyword q) @ ''_''
     @ param (pq_profileComplete q) @ ''_''
     @ param (pq_therapistId q)"

definition getPatients ::
  "patients_query \<Rightarrow> int \<Rightarrow> store \<times> patient_row page_result cache \<Rightarrow>
     (error + patient_row page_result) \<times> (store \<times> patient_row page_result cache)" where
  "getPatients q now = (\<lambda>(db, cache).
     let (result, cache') =
           getCachedData_or_fetch cache now (patients_cacheKey q) (getPatients_fetch q db)
             CACHE_TTL_patients
     in (result, (db, cache')))"

section \<open>Creating a therapist, and the routes\<close>

subsection \<open>\<open>createTherapist\<close>\<close>

text \<open>
  The body fields the model keeps. \<open>new_id\<close> is the id the store gives the new
  document; \<open>now_iso\<close> is \<open>new Date().toISOString()\<close> and \<open>now\<close> is
  \<open>Date.now()\<close>. The store refuses a document with an \<open>undefined\<close> field.
\<close>

record therapist_body =
  tb_uid :: "string field"
  tb_name :: "string field"
  tb_email :: "string field"
  tb_title :: "string field"
  tb_specialization :: "string field"
  tb_bio :: "string field"
  tb_experience :: "int field"

definition query_where :: "where_clause list \<Rightarrow> fs_query" where
  "query_where ws = \<lparr>q_where = ws, q_orderBy = None, q_startAfter = None, q_limit = None\<rparr>"

definition new_therapist_data :: "therapist_body \<Rightarrow> string \<Rightarrow> int \<Rightarrow> user_doc" where
  "new_therapist_data body now_iso now =
     empty_doc\<lparr>
       uid := (if truthy_str (tb_uid body) then tb_uid body
               else Val (''therapist_'' @ show_nat (nat now))),
       name := tb_name body,
       email := tb_email body,
       title := Val (or_empty (tb_title body)),
       specialization := tb_specialization body,
       bio := Val (or_empty (tb_bio body)),
       experience := Val (or_zero (tb_experience body)),
       role := Val ''professional'',
       isVerified := Val False,
       isProfileComplete := Val False,
       createdAt := Val now_iso,
       updatedAt := Val now_iso\<rparr>"

definition createTherapist ::
  "therapist_body \<Rightarrow> string \<Rightarrow> int \<Rightarrow> string \<Rightarrow> store \<times> 'a cache \<Rightarrow>
     (error + therapist) \<times> (store \<times> 'a cache)" where
  "createTherapist body now_iso now new_id = (\<lambda>(db, cache).
     case run_query db (query_where [Where_email (tb_email body)]) of
       Inl e \<Rightarrow> (Inl (Status 500 ''Failed to create therapist''), (db, cache))
     | Inr existingUser \<Rightarrow>
         if existingUser \<noteq> [] then (Inl (Status 400 ''Email already exists''), (db, cache))
         else
           (case (if truthy_str (tb_uid body)
                  then run_query db (query_where [Where_uid (tb_uid body)])
                  else Inr []) of
              Inl e \<Rightarrow> (Inl (Status 500 ''Failed to create therapist''), (db, cache))
            | Inr existingUid \<Rightarrow>
                if existingUid \<noteq> [] then (Inl (Status 400 ''UID already exists''), (db, cache))
                else if tb_name body = Undefined \<or> tb_specialization body = Undefined
                then (Inl (Status 500 ''Failed to create therapist''), (db, cache))
                else
                  (let therapistData = new_therapist_data body now_iso now
                   in (Inr (transformTherapistData (new_id, therapistData)),
                       (db @ [(new_id, therapistData)], map_clear cache)))))"

subsection \<open>The state of the server and four of its routes\<close>

text \<open>
  The process holds three maps: the one of the cache middleware, the one of the
  therapist controller and the one of the patient controller. The authentication
  middlewares are not part of the model.
  \<^item> \<open>GET /api/therapists\<close>: \<open>cacheMiddleware(300)\<close>, then \<open>getTherapists\<close>;
  \<^item> \<open>POST /api/therapists\<close>: \<open>createTherapist\<close>;
  \<^item> \<open>PUT /api/therapists/:id/assign-patients\<close>: \<open>assignPatientsToTherapist\<close>;
  \<^item> \<open>GET /api/patients\<close>: \<open>getPatients\<close>.
\<close>

record server =
  middleware_cache :: "(error + therapist page_result) cache"
  users :: store
  therapist_cache :: "therapist page_result cache"
  patient_cache :: "patient_row page_result cache"

definition GET_therapists ::
  "therapists_query \<Rightarrow> request \<Rightarrow> int \<Rightarrow> server \<Rightarrow> (error + therapist page_result) \<times> server" where
  "GET_therapists q req now srv =
     (let (r, (mw, (db, tc))) =
            cacheMiddleware therapists_list_ttl now req (getTherapists q (query_json req) now)
              (middleware_cache srv, (users srv, therapist_cache srv))
      in (r, srv\<lparr>middleware_cache := mw, users := db, therapist_cache := tc\<rparr>))"

definition POST_therapists ::
  "therapist_body \<Rightarrow> string \<Rightarrow> int \<Rightarrow> string \<Rightarrow> server \<Rightarrow> (error + therapist) \<times> server" where
  "POST_therapists body now_iso now new_id srv =
     (let (r, (db, tc)) =
            createTherapist body now_iso now new_id (users srv, therapist_cache srv)
      in (r, srv\<lparr>users := db, therapist_cache := tc\<rparr>))"

definition PUT_assign_patients ::
  "string \<Rightarrow> string list option \<Rightarrow> string \<Rightarrow> server \<Rightarrow> (error + assign_response) \<times> server" where
  "PUT_assign_patients tid patientIds now_iso srv =
     (case assignPatientsToTherapist tid patientIds now_iso (users srv, therapist_cache srv) of
        Inl e \<Rightarrow> (Inl e, srv)
      | Inr (r, db, tc) \<Rightarrow> (Inr r, srv\<lparr>users := db, therapist_cache := tc\<rparr>))"

definition GET_patients ::
  "patients_query \<Rightarrow> int \<Rightarrow> server \<Rightarrow> (error + patient_row page_result) \<times> server" where
  "GET_patients q now srv =
     (let (r, (db, pc)) = getPatients q now (users srv, patient_cache srv)
      in (r, srv\<lparr>users := db, patient_cache := pc\<rparr>))"

section \<open>Example data\<close>

text \<open>
  A patient as \<open>createPatient\<close> stores it: every profile field that was not
  supplied is \<open>null\<close>, \<open>flags\<close> and \<open>documents\<close> are empty
  arrays.
\<close>

definition new_patient :: "string \<Rightarrow> string \<Rightarrow> string \<Rightarrow> user_doc" where
  "new_patient nm mail created =
     empty_doc\<lparr>role := Val ''patient'', uid := Null, name := Val nm, email := Val mail,
       isProfileComplete := Val True, age := Null, gender := Null, concerns := Null,
       emergencyContact := Null, assigned_therapist := Null,
       flags := Val [], documents := Val [],
       createdAt := Val created, updatedAt := Val created\<rparr>"

definition flag_db :: store where
  "flag_db = [(''p1'', new_patient ''Ann'' ''ann@example.org'' ''2025-01-01T00:00:00.000Z'')]"

text \<open>
  The two halves of ``each supplied field equals the stored value'' for a body of
  \<open>updatePatient\<close>: the six profile fields, which the handler compares with the
  stored document, and the three admin-only fields, which it does not compare.
\<close>

definition profile_fields_same :: "patient_body \<Rightarrow> user_doc \<Rightarrow> bool" where
  "profile_fields_same body d \<longleftrightarrow>
     (b_name body = Undefined \<or> b_name body = name d) \<and>
     (b_email body = Undefined \<or> b_email body = email d) \<and>
     (b_age body = Undefined \<or> b_age body = age d) \<and>
     (b_gender body = Undefined \<or> b_gender body = gender d) \<and>
     (b_concerns body = Undefined \<or> b_concerns body = concerns d) \<and>
     (b_emergencyContact body = Undefined \<or> b_emergencyContact body = emergencyContact d)"

definition admin_fields_same :: "patient_body \<Rightarrow> user_doc \<Rightarrow> bool" where
  "admin_fields_same body d \<longleftrightarrow>
     (b_assigned_therapist body = Undefined \<or> b_assigned_therapist body = assigned_therapist d) \<and>
     (b_flags body = Undefined \<or> b_flags body = flags d) \<and>
     (b_documents body = Undefined \<or> b_documents body = documents d)"

definition admin_fields_absent :: "patient_body \<Rightarrow> bool" where
  "admin_fields_absent body \<longleftrightarrow>
     b_assigned_therapist body = Undefined \<and> b_flags body = Undefined \<and>
     b_documents body = Undefined"

definition empty_body :: patient_body where
  "empty_body =
     \<lparr>b_name = Undefined, b_email = Undefined, b_age = Undefined, b_gender = Undefined,
      b_concerns = Undefined, b_emergencyContact = Undefined,
      b_assigned_therapist = Undefined, b_flags = Undefined, b_documents = Undefined\<rparr>"

text \<open>A patient assigned to the therapist document \<open>T1\<close>, last written in January.\<close>

definition assigned_patient :: user_doc where
  "assigned_patient =
     (new_patient ''Ann'' ''ann@example.org'' ''2025-01-01T00:00:00.000Z'')
       \<lparr>assigned_therapist := Val ''T1''\<rparr>"

definition update_db :: store where
  "update_db = [(''p1'', assigned_patient)]"

text \<open>
  A therapist document \<open>T\<close> (uid \<open>uid-T\<close>) with two patients \<open>A\<close> and
  \<open>B\<close> assigned through the therapist endpoint, and two patients \<open>P\<close> and
  \<open>N\<close> without a therapist.
\<close>

definition therapist_T :: user_doc where
  "therapist_T =
     empty_doc\<lparr>role := Val ''professional'', uid := Val ''uid-T'', name := Val ''Tom'',
       email := Val ''tom@example.org'', title := Val ''Dr'',
       specialization := Val ''Anxiety'', isVerified := Val True,
       createdAt := Val ''2025-01-01T00:00:00.000Z'',
       updatedAt := Val ''2025-01-01T00:00:00.000Z''\<rparr>"

definition patient_of_T :: "string \<Rightarrow> user_doc" where
  "patient_of_T nm =
     (new_patient nm (nm @ ''@example.org'') ''2025-01-02T00:00:00.000Z'')
       \<lparr>assignedTherapist := Val ''uid-T'',
        assignedTherapistInfo := Val (therapist_info_of therapist_T)\<rparr>"

definition assign_db :: store where
  "assign_db =
     [(''T'', therapist_T),
      (''A'', patient_of_T ''Ada''),
      (''B'', patient_of_T ''Bob''),
      (''P'', new_patient ''Pia'' ''pia@example.org'' ''2025-01-03T00:00:00.000Z''),
      (''N'', new_patient ''Ned'' ''ned@example.org'' ''2025-01-04T00:00:00.000Z'')]"

text \<open>
  Eleven therapists \<open>t01\<close> .. \<open>t11\<close>, updated on the 1st .. 11th of January,
  none of them with a patient; and the query of a first page of ten.
\<close>

definition therapist_at :: "string \<Rightarrow> string \<Rightarrow> user_doc" where
  "therapist_at u updated =
     empty_doc\<lparr>role := Val ''professional'', uid := Val u, name := Val ''Tom'',
       email := Val ''tom@example.org'', specialization := Val ''Anxiety'',
       createdAt := Val updated, updatedAt := Val updated\<rparr>"

definition eleven_therapists :: store where
  "eleven_therapists =
     map (\<lambda>(i, day). (i, therapist_at (''uid-'' @ i) (''2025-01-'' @ day @ ''T00:00:00.000Z'')))
       [(''t01'', ''01''), (''t02'', ''02''), (''t03'', ''03''), (''t04'', ''04''),
        (''t05'', ''05''), (''t06'', ''06''), (''t07'', ''07''), (''t08'', ''08''),
        (''t09'', ''09''), (''t10'', ''10''), (''t11'', ''11'')]"

definition first_page_of_ten :: therapists_query where
  "first_page_of_ten =
     \<lparr>tq_pageSize = Some 10, tq_lastDocId = None, tq_keyword = None,
      tq_specialization = None, tq_isVerified = None, tq_isProfileComplete = None,
      tq_experience = None\<rparr>"

text \<open>
  Eleven patients \<open>p01\<close> .. \<open>p11\<close>, created on the 1st .. 11th of January,
  and the query of a first page of ten.
\<close>

definition eleven_patients :: store where
  "eleven_patients =
     map (\<lambda>(i, day). (i, new_patient ''Ann'' ''ann@example.org''
                             (''2025-01-'' @ day @ ''T00:00:00.000Z'')))
       [(''p01'', ''01''), (''p02'', ''02''), (''p03'', ''03''), (''p04'', ''04''),
        (''p05'', ''05''), (''p06'', ''06''), (''p07'', ''07''), (''p08'', ''08''),
        (''p09'', ''09''), (''p10'', ''10''), (''p11'', ''11'')]"

definition first_patients_of_ten :: patients_query where
  "first_patients_of_ten =
     \<lparr>pq_pageSize = Some 10, pq_lastDocId = None, pq_keyword = None,
      pq_profileComplete = None, pq_therapistId = None\<rparr>"

text \<open>
  Two therapists: \<open>t1\<close> (Ann), updated last, and \<open>t2\<close> (Bob). The request
  without any parameter, for either list.
\<close>

definition two_therapists :: store where
  "two_therapists =
     [(''t1'', (therapist_at ''uid-t1'' ''2025-01-02T00:00:00.000Z'')
                 \<lparr>name := Val ''Ann'', email := Val ''ann@example.org''\<rparr>),
      (''t2'', (therapist_at ''uid-t2'' ''2025-01-01T00:00:00.000Z'')
                 \<lparr>name := Val ''Bob'', email := Val ''bob@example.org''\<rparr>)]"

definition no_params :: therapists_query where
  "no_params =
     \<lparr>tq_pageSize = None, tq_lastDocId = None, tq_keyword = None,
      tq_specialization = None, tq_isVerified = None, tq_isProfileComplete = None,
      tq_experience = None\<rparr>"

definition no_patient_params :: patients_query where
  "no_patient_params =
     \<lparr>pq_pageSize = None, pq_lastDocId = None, pq_keyword = None,
      pq_profileComplete = None, pq_therapistId = None\<rparr>"

text \<open>Two patients without a therapist: \<open>p1\<close> (Ann), created last, and \<open>p2\<close> (Bob).\<close>

definition two_patients :: store where
  "two_patients =
     [(''p1'', new_patient ''Ann'' ''ann@example.org'' ''2025-01-02T00:00:00.000Z''),
      (''p2'', new_patient ''Bob'' ''bob@example.org'' ''2025-01-01T00:00:00.000Z'')]"

text \<open>
  Twenty-five patients \<open>p01\<close> .. \<open>p25\<close>; patient \<open>pNN\<close> was assigned
  to the therapist document \<open>TNN\<close> through the patient endpoint.
\<close>

definition twenty_five_patients :: store where
  "twenty_five_patients =
     map (\<lambda>(i, n). (i, (new_patient ''Ann'' ''ann@example.org''
                              (''2025-01-'' @ n @ ''T00:00:00.000Z''))
                            \<lparr>assigned_therapist := Val (''T'' @ n)\<rparr>))
       [(''p01'', ''01''), (''p02'', ''02''), (''p03'', ''03''), (''p04'', ''04''),
        (''p05'', ''05''), (''p06'', ''06''), (''p07'', ''07''), (''p08'', ''08''),
        (''p09'', ''09''), (''p10'', ''10''), (''p11'', ''11''), (''p12'', ''12''),
        (''p13'', ''13''), (''p14'', ''14''), (''p15'', ''15''), (''p16'', ''16''),
        (''p17'', ''17''), (''p18'', ''18''), (''p19'', ''19''), (''p20'', ''20''),
        (''p21'', ''21''), (''p22'', ''22''), (''p23'', ''23''), (''p24'', ''24''),
        (''p25'', ''25'')]"

text \<open>
  The request \<open>GET /api/therapists\<close> without parameters, a body for a new
  therapist, and a server that has just started with the two therapists (or with the
  therapist \<open>T\<close> and the patients of the assignment example) in the store.
\<close>

definition list_request :: request where
  "list_request = \<lparr>req_method = ''GET'', originalUrl = ''/api/therapists'', query_json = ''{}''\<rparr>"

definition eve_body :: therapist_body where
  "eve_body =
     \<lparr>tb_uid = Val ''uid-t3'', tb_name = Val ''Eve'', tb_email = Val ''eve@example.org'',
      tb_title = Undefined, tb_specialization = Val ''Trauma'', tb_bio = Undefined,
      tb_experience = Val 4\<rparr>"

definition fresh_server :: "store \<Rightarrow> server" where
  "fresh_server db =
     \<lparr>middleware_cache = [], users = db, therapist_cache = [], patient_cache = []\<rparr>"

section \<open>Properties of the string and map primitives\<close>

lemma startsWith_iff: "startsWith s p \<longleftrightarrow> (\<exists>v. s = p @ v)"
  by (induction s p rule: startsWith.induct) auto

lemma str_includes_iff: "str_includes s p \<longleftrightarrow> (\<exists>u v. s = u @ p @ v)"
proof (induction s)
  case Nil
  then show ?case by auto
next
  case (Cons a s)
  show ?case
  proof
    assume "str_includes (a # s) p"
    then consider "startsWith (a # s) p" | "str_includes s p" by auto
    then show "\<exists>u v. a # s = u @ p @ v"
    proof cases
      case 1
      then obtain v where "a # s = p @ v" using startsWith_iff by blast
      then have "a # s = [] @ p @ v" by simp
      then show ?thesis by blast
    next
      case 2
      then obtain u v where "s = u @ p @ v" using Cons.IH by blast
      then have "a # s = (a # u) @ p @ v" by simp
      then show ?thesis by blast
    qed
  next
    assume "\<exists>u v. a # s = u @ p @ v"
    then obtain u v where uv: "a # s = u @ p @ v" by blast
    show "str_includes (a # s) p"
    proof (cases u)
      case Nil
      with uv have "startsWith (a # s) p" using startsWith_iff by auto
      then show ?thesis by simp
    next
      case (Cons b u')
      with uv have "s = u' @ p @ v" by simp
      then have "str_includes s p" using Cons.IH by blast
      then show ?thesis by simp
    qed
  qed
qed

lemma map_get_map_set: "map_get (map_set m k v) k' = (if k' = k then Some v else map_get m k')"
  by (induction m) (auto simp: map_get_def)

lemma map_get_map_delete: "map_get (map_delete m k) k' = (if k' = k then None else map_get m k')"
  by (induction m) (auto simp: map_get_def map_delete_def)

lemma map_keys_map_set:
  "map_keys (map_set m k v) = (if k \<in> set (map_keys m) then map_keys m else map_keys m @ [k])"
  by (induction m) (auto simp: map_keys_def rev_image_eqI)

lemma distinct_map_set: "distinct (map_keys m) \<Longrightarrow> distinct (map_keys (map_set m k v))"
  by (simp add: map_keys_map_set)

section \<open>\<open>clearCache\<close> removes exactly the keys that contain the pattern\<close>

lemma fold_delete_filter:
  "fold (\<lambda>key c. if str_includes key pattern then map_delete c key else c) ks cache =
   filter (\<lambda>kv. \<not> (fst kv \<in> set ks \<and> str_includes (fst kv) pattern)) cache"
proof (induction ks arbitrary: cache)
  case Nil
  then show ?case by simp
next
  case (Cons k ks)
  show ?case
  proof (cases "str_includes k pattern")
    case True
    then show ?thesis
      by (auto simp: Cons.IH map_delete_def intro: filter_cong)
  next
    case False
    then show ?thesis
      by (auto simp: Cons.IH intro: filter_cong)
  qed
qed

lemma clearCache_filter:
  "clearCache pattern cache = filter (\<lambda>kv. \<not> str_includes (fst kv) pattern) cache"
  unfolding clearCache_def fold_delete_filter map_keys_def
  by (rule filter_cong) auto

lemma map_of_filter_keys:
  "map_of (filter (\<lambda>kv. P (fst kv)) m) k = (if P k then map_of m k else None)"
  by (induction m) auto

text \<open>
  C7. After \<open>clearCache pattern\<close>, a key that contains \<open>pattern\<close> as a substring is
  absent from the cache, and every other key maps to the entry (data and timestamp) it
  had before; the keys that remain are the keys without the pattern, in their old order.
\<close>

theorem clearCache_removes_exactly:
  "map_get (clearCache pattern cache) key =
     (if str_includes key pattern then None else map_get cache key)
   \<and> map_keys (clearCache pattern cache) =
       filter (\<lambda>k. \<not> str_includes k pattern) (map_keys cache)"
proof -
  have "map_get (clearCache pattern cache) key =
        (if str_includes key pattern then None else map_get cache key)"
    unfolding clearCache_filter map_get_def
    using map_of_filter_keys [of "\<lambda>k. \<not> str_includes k pattern" cache key] by simp
  moreover have "map_keys (clearCache pattern cache) =
        filter (\<lambda>k. \<not> str_includes k pattern) (map_keys cache)"
    unfolding clearCache_filter map_keys_def by (simp add: filter_map comp_def)
  ultimately show ?thesis by simp
qed

section \<open>Writes to the store\<close>

lemma doc_update_existing:
  "doc_get db i = Some d \<Longrightarrow>
   \<exists>db'. doc_update db i u = Inr db' \<and>
     (\<forall>j. doc_get db' j = (if j = i then Some (spread d u) else doc_get db j))"
  by (induction db) (auto simp: doc_get_def split: sum.splits if_splits)

lemma doc_update_get:
  "doc_update db i u = Inr db' \<Longrightarrow>
   doc_get db' j = (if j = i then map_option (\<lambda>d. spread d u) (doc_get db i) else doc_get db j)"
  by (induction db arbitrary: db') (auto simp: doc_get_def split: sum.splits if_splits)

lemma doc_update_missing: "doc_get db i = None \<longleftrightarrow> doc_update db i u = Inl StoreFailure"
  by (induction db) (auto simp: doc_get_def split: sum.splits if_splits)

section \<open>\<open>flagPatient\<close> suppresses duplicates\<close>

lemma spread_flags_written:
  "flags_or_empty (spread d [Set_flags (Val xs), Set_updatedAt v]) = xs"
  "role (spread d [Set_flags (Val xs), Set_updatedAt v]) = role d"
  by (simp_all add: spread_def flags_or_empty_def)

text \<open>
  One call on an existing patient succeeds; the stored list gets the flag appended
  unless it is there already, in which case the store is left as it was.
\<close>

lemma flagPatient_step:
  assumes "doc_get db pid = Some d" and "role d = Val ''patient''"
  shows "\<exists>r db' d'. flagPatient pid f t (db, c) = Inr (r, db', clear_patient_caches pid c)
          \<and> doc_get db' pid = Some d' \<and> role d' = Val ''patient''
          \<and> flags_or_empty d' =
              (if f \<in> set (flags_or_empty d) then flags_or_empty d else flags_or_empty d @ [f])
          \<and> (f \<in> set (flags_or_empty d) \<longrightarrow> db' = db)"
proof (cases "f \<in> set (flags_or_empty d)")
  case True
  then show ?thesis using assms
    by (simp add: flagPatient_def runTransaction_def flagPatient_txn_def Let_def)
next
  case False
  let ?u = "[Set_flags (Val (flags_or_empty d @ [f])), Set_updatedAt (Val t)]"
  let ?res = "spread d [Set_flags (Val (flags_or_empty d @ [f]))]"
  obtain db' where u: "doc_update db pid ?u = Inr db'"
    and g: "\<forall>j. doc_get db' j = (if j = pid then Some (spread d ?u) else doc_get db j)"
    using doc_update_existing[OF assms(1)] by blast
  have "flagPatient pid f t (db, c) =
        Inr (\<lparr>resp_id = pid, resp_doc = ?res, full_name = name ?res,
              created_at = createdAt ?res, updated_at = Val t\<rparr>,
             db', clear_patient_caches pid c)"
    using False u assms
    by (simp add: flagPatient_def runTransaction_def flagPatient_txn_def Let_def)
  moreover have "doc_get db' pid = Some (spread d ?u)" using g by simp
  moreover have "role (spread d ?u) = Val ''patient''"
    using assms(2) by (simp add: spread_flags_written)
  moreover have "flags_or_empty (spread d ?u) =
      (if f \<in> set (flags_or_empty d) then flags_or_empty d else flags_or_empty d @ [f])"
    using False by (simp add: spread_flags_written)
  ultimately show ?thesis using False by blast
qed

text \<open>
  C9. On an existing patient, \<open>flagPatient\<close> called twice with the same flag
  succeeds both times and the second call leaves the store exactly as the first one
  left it: the stored list is the old one with the flag appended unless it was already
  there. The flag then occurs \<open>max 1 n\<close> times, where \<open>n\<close> is the number of
  its occurrences before the calls: exactly once when it was absent or present once,
  and as often as before when the stored list already held it several times. Called
  with two different flags \<open>f\<close> then \<open>g\<close>, the stored list is the old one
  followed by those of \<open>f\<close>, \<open>g\<close> that were not in it, in that order.
\<close>

theorem flagPatient_idempotent:
  assumes "doc_get db pid = Some d" and "role d = Val ''patient''"
  shows "(\<exists>r1 db1 c1 r2 c2.
            flagPatient pid f t1 (db, c) = Inr (r1, db1, c1) \<and>
            flagPatient pid f t2 (db1, c1) = Inr (r2, db1, c2) \<and>
            map_option flags_or_empty (doc_get db1 pid) =
              Some (if f \<in> set (flags_or_empty d) then flags_or_empty d
                    else flags_or_empty d @ [f]) \<and>
            map_option (\<lambda>d1. count_list (flags_or_empty d1) f) (doc_get db1 pid) =
              Some (max 1 (count_list (flags_or_empty d) f)))
       \<and> (f \<noteq> g \<longrightarrow>
            (\<exists>r1 db1 c1 r2 db2 c2.
               flagPatient pid f t1 (db, c) = Inr (r1, db1, c1) \<and>
               flagPatient pid g t2 (db1, c1) = Inr (r2, db2, c2) \<and>
               map_option flags_or_empty (doc_get db2 pid) =
                 Some (flags_or_empty d @ filter (\<lambda>x. x \<notin> set (flags_or_empty d)) [f, g])))"
proof -
  let ?old = "flags_or_empty d"
  let ?c1 = "clear_patient_caches pid c"
  obtain r1 db1 d1 where s1:
    "flagPatient pid f t1 (db, c) = Inr (r1, db1, ?c1)"
    "doc_get db1 pid = Some d1" "role d1 = Val ''patient''"
    "flags_or_empty d1 = (if f \<in> set ?old then ?old else ?old @ [f])"
    using flagPatient_step[OF assms, of f t1 c] by blast
  have in1: "f \<in> set (flags_or_empty d1)" using s1(4) by simp
  obtain r2 db2 where s2:
    "flagPatient pid f t2 (db1, ?c1) = Inr (r2, db2, clear_patient_caches pid ?c1)"
    "f \<in> set (flags_or_empty d1) \<longrightarrow> db2 = db1"
    using flagPatient_step[OF s1(2,3), of f t2 ?c1] by blast
  have same: "db2 = db1" using s2(2) in1 by simp
  have cnt: "count_list (flags_or_empty d1) f = max 1 (count_list ?old f)"
  proof (cases "f \<in> set ?old")
    case True
    then have "count_list ?old f \<noteq> 0" using count_list_0_iff[of ?old f] by simp
    then have "0 < count_list ?old f" by simp
    then show ?thesis using True s1(4) by simp
  next
    case False
    then have "count_list ?old f = 0" by (simp add: count_list_0_iff)
    then show ?thesis using False s1(4) by simp
  qed
  have part1: "\<exists>r1 db1 c1 r2 c2.
            flagPatient pid f t1 (db, c) = Inr (r1, db1, c1) \<and>
            flagPatient pid f t2 (db1, c1) = Inr (r2, db1, c2) \<and>
            map_option flags_or_empty (doc_get db1 pid) =
              Some (if f \<in> set ?old then ?old else ?old @ [f]) \<and>
            map_option (\<lambda>d1. count_list (flags_or_empty d1) f) (doc_get db1 pid) =
              Some (max 1 (count_list ?old f))"
    using s1 s2(1) same cnt by auto
  have part2: "\<exists>r1 db1 c1 r2 db2 c2.
               flagPatient pid f t1 (db, c) = Inr (r1, db1, c1) \<and>
               flagPatient pid g t2 (db1, c1) = Inr (r2, db2, c2) \<and>
               map_option flags_or_empty (doc_get db2 pid) =
                 Some (?old @ filter (\<lambda>x. x \<notin> set ?old) [f, g])" if "f \<noteq> g"
  proof -
    obtain r3 db3 d3 where s3:
      "flagPatient pid g t2 (db1, ?c1) = Inr (r3, db3, clear_patient_caches pid ?c1)"
      "doc_get db3 pid = Some d3"
      "flags_or_empty d3 =
         (if g \<in> set (flags_or_empty d1) then flags_or_empty d1 else flags_or_empty d1 @ [g])"
      using flagPatient_step[OF s1(2,3), of g t2 ?c1] by blast
    have "flags_or_empty d3 = ?old @ filter (\<lambda>x. x \<notin> set ?old) [f, g]"
      using s3(3) s1(4) that by auto
    then show ?thesis using s1(1) s3(1,2) by auto
  qed
  show ?thesis using part1 part2 by blast
qed

theorem flagPatient_idempotent_witness:
  "(\<exists>r1 db1 c1 r2 c2.
      flagPatient ''p1'' ''High Risk'' ''t1'' (flag_db, []) = Inr (r1, db1, c1) \<and>
      flagPatient ''p1'' ''High Risk'' ''t2'' (db1, c1) = Inr (r2, db1, c2 :: nat cache) \<and>
      map_option flags_or_empty (doc_get db1 ''p1'') = Some [''High Risk''])
   \<and> (\<exists>r1 db1 c1 r2 db2 c2.
      flagPatient ''p1'' ''High Risk'' ''t1'' (flag_db, []) = Inr (r1, db1, c1) \<and>
      flagPatient ''p1'' ''Special Attention'' ''t2'' (db1, c1) = Inr (r2, db2, c2 :: nat cache) \<and>
      map_option flags_or_empty (doc_get db2 ''p1'') =
        Some [''High Risk'', ''Special Attention''])"
proof -
  let ?d = "new_patient ''Ann'' ''ann@example.org'' ''2025-01-01T00:00:00.000Z''"
  have g: "doc_get flag_db ''p1'' = Some ?d" by (simp add: flag_db_def doc_get_def)
  have r: "role ?d = Val ''patient''" by (simp add: new_patient_def)
  have e: "flags_or_empty ?d = []" by (simp add: new_patient_def flags_or_empty_def)
  have ne: "''High Risk'' \<noteq> ''Special Attention''" by simp
  show ?thesis
    using flagPatient_idempotent[OF g r, of "''High Risk''" "''t1''" "[]" "''t2''"
        "''Special Attention''"]
    unfolding e using ne by simp blast
qed

text \<open>
  \<open>flagPatient\<close> never removes an occurrence. \<open>updatePatient\<close> stores the
  \<open>flags\<close> of its body as they are, so a list with the same flag twice can be in
  the store; two calls of \<open>flagPatient\<close> with that flag then leave it there twice.
\<close>

theorem flagPatient_keeps_stored_duplicates_counterexample:
  "\<exists>r0 db0 c0 r1 db1 c1 r2 c2.
     updatePatient ''p1'' (empty_body\<lparr>b_flags := Val [''High Risk'', ''High Risk'']\<rparr>)
       ''2025-06-01T00:00:00.000Z'' (flag_db, [] :: nat cache) = Inr (r0, db0, c0) \<and>
     map_option flags (doc_get db0 ''p1'') = Some (Val [''High Risk'', ''High Risk'']) \<and>
     flagPatient ''p1'' ''High Risk'' ''2025-06-02T00:00:00.000Z'' (db0, c0) = Inr (r1, db1, c1) \<and>
     flagPatient ''p1'' ''High Risk'' ''2025-06-03T00:00:00.000Z'' (db1, c1) = Inr (r2, db1, c2) \<and>
     map_option flags (doc_get db1 ''p1'') = Some (Val [''High Risk'', ''High Risk'']) \<and>
     map_option (\<lambda>d. count_list (flags_or_empty d) ''High Risk'') (doc_get db1 ''p1'') = Some 2"
  by (simp add: empty_body_def flag_db_def new_patient_def empty_doc_def
      updatePatient_def runTransaction_def updatePatient_txn_def updateData_of_def
      flagPatient_def flagPatient_txn_def flags_or_empty_def
      doc_get_def map_get_def spread_def Let_def clear_patient_caches_def clearCache_def map_keys_def)

section \<open>\<open>updatePatient\<close> with unchanged values\<close>

lemma updateData_of_unchanged:
  assumes "profile_fields_same body d" and "admin_fields_absent body"
  shows "updateData_of body d now = [Set_updatedAt (Val now)]"
  using assms unfolding profile_fields_same_def admin_fields_absent_def updateData_of_def
  by auto

text \<open>
  The comparison with the stored document. When the patient exists, every supplied
  profile field (name, email, age, gender, concerns, emergencyContact) is strictly
  equal to the stored one
  and no admin-only field (assigned_therapist, flags, documents) is supplied, the
  transaction queues no write and the store is returned as it was, stored
  \<open>updatedAt\<close> included; the response still carries the fresh timestamp in
  \<open>updatedAt\<close> and \<open>updated_at\<close>.
\<close>

lemma updatePatient_unchanged_no_write:
  assumes "doc_get db pid = Some d" and "role d = Val ''patient''"
    and "profile_fields_same body d" and "admin_fields_absent body"
  shows "\<exists>r. updatePatient_txn pid body now db = Inr (r, [])
           \<and> updatePatient pid body now (db, c) = Inr (r, db, clear_patient_caches pid c)
           \<and> updatedAt (resp_doc r) = Val now \<and> updated_at r = Val now
           \<and> doc_get db pid = Some d"
proof -
  have u: "updateData_of body d now = [Set_updatedAt (Val now)]"
    using assms(3,4) by (rule updateData_of_unchanged)
  let ?res = "spread d [Set_updatedAt (Val now)]"
  let ?r = "\<lparr>resp_id = pid, resp_doc = ?res, full_name = name ?res,
             created_at = createdAt ?res, updated_at = updatedAt ?res\<rparr>"
  have t: "updatePatient_txn pid body now db = Inr (?r, [])"
    using assms(1,2) u by (simp add: updatePatient_txn_def Let_def)
  have h: "updatePatient pid body now (db, c) = Inr (?r, db, clear_patient_caches pid c)"
    using t by (simp add: updatePatient_def runTransaction_def)
  have "updatedAt ?res = Val now" by (simp add: spread_def)
  then show ?thesis using t h assms(1) by simp
qed

lemma updatePatient_unchanged_no_write_example:
  "\<exists>r. updatePatient_txn ''p1'' (empty_body\<lparr>b_name := Val ''Ann''\<rparr>)
            ''2025-06-01T00:00:00.000Z'' update_db = Inr (r, [])
      \<and> updatePatient ''p1'' (empty_body\<lparr>b_name := Val ''Ann''\<rparr>)
            ''2025-06-01T00:00:00.000Z'' (update_db, []) = Inr (r, update_db, [] :: nat cache)
      \<and> updatedAt (resp_doc r) = Val ''2025-06-01T00:00:00.000Z''
      \<and> updated_at r = Val ''2025-06-01T00:00:00.000Z''
      \<and> map_option updatedAt (doc_get update_db ''p1'') = Some (Val ''2025-01-01T00:00:00.000Z'')"
proof -
  let ?b = "empty_body\<lparr>b_name := Val ''Ann''\<rparr>"
  have g: "doc_get update_db ''p1'' = Some assigned_patient"
    by (simp add: update_db_def doc_get_def)
  have r: "role assigned_patient = Val ''patient''"
    by (simp add: assigned_patient_def new_patient_def)
  have p: "profile_fields_same ?b assigned_patient"
    by (simp add: profile_fields_same_def empty_body_def assigned_patient_def new_patient_def)
  have a: "admin_fields_absent ?b"
    by (simp add: admin_fields_absent_def empty_body_def)
  have c: "clear_patient_caches ''p1'' ([] :: nat cache) = []"
    by (simp add: clear_patient_caches_def clearCache_def map_keys_def)
  have u: "updatedAt assigned_patient = Val ''2025-01-01T00:00:00.000Z''"
    by (simp add: assigned_patient_def new_patient_def)
  show ?thesis
    using updatePatient_unchanged_no_write[OF g r p a, of "''2025-06-01T00:00:00.000Z''" "[] :: nat cache"]
    unfolding c using g u by auto
qed

text \<open>
  C10. The three admin-only fields are not compared with the stored document: they are
  put into \<open>updateData\<close> whenever they are supplied. A body whose only field is
  \<open>assigned_therapist\<close>, equal to the stored value, has every supplied field equal
  to the stored one; the transaction still queues a write of \<open>updatedAt\<close> and
  \<open>assigned_therapist\<close>, and the stored \<open>updatedAt\<close> moves from January
  to the time of the call, where no write and an unchanged record are claimed (and where
  the handler announces ``Only update fields that have changed'' and ``Only perform
  update if there are changes'').
\<close>

theorem updatePatient_writes_unchanged_admin_field:
  "profile_fields_same (empty_body\<lparr>b_assigned_therapist := Val ''T1''\<rparr>) assigned_patient
   \<and> admin_fields_same (empty_body\<lparr>b_assigned_therapist := Val ''T1''\<rparr>) assigned_patient
   \<and> (\<exists>r db'. updatePatient ''p1'' (empty_body\<lparr>b_assigned_therapist := Val ''T1''\<rparr>)
                 ''2025-06-01T00:00:00.000Z'' (update_db, [] :: nat cache) = Inr (r, db', [])
        \<and> updatePatient_txn ''p1'' (empty_body\<lparr>b_assigned_therapist := Val ''T1''\<rparr>)
                 ''2025-06-01T00:00:00.000Z'' update_db =
            Inr (r, [(''p1'', [Set_updatedAt (Val ''2025-06-01T00:00:00.000Z''),
                               Set_assigned_therapist (Val ''T1'')])])
        \<and> map_option updatedAt (doc_get db' ''p1'') = Some (Val ''2025-06-01T00:00:00.000Z'')
        \<and> map_option updatedAt (doc_get update_db ''p1'') = Some (Val ''2025-01-01T00:00:00.000Z'')
        \<and> db' \<noteq> update_db)"
  by (simp add: profile_fields_same_def admin_fields_same_def empty_body_def
      assigned_patient_def new_patient_def empty_doc_def update_db_def
      updatePatient_def runTransaction_def updatePatient_txn_def updateData_of_def
      doc_get_def spread_def Let_def clear_patient_caches_def clearCache_def map_keys_def)

section \<open>The two assignment endpoints write different fields\<close>

lemma batch_commit_get:
  "batch_commit db ws = Inr db' \<Longrightarrow>
   doc_get db' j =
     map_option (fold (\<lambda>w d. if fst w = j then spread d (snd w) else d) ws) (doc_get db j)"
proof (induction ws arbitrary: db)
  case Nil
  then show ?case by (simp add: option.map_ident)
next
  case (Cons w ws)
  obtain i u where w: "w = (i, u)" by (cases w)
  from Cons.prems w obtain db1 where
    u: "doc_update db i u = Inr db1" and c: "batch_commit db1 ws = Inr db'"
    by (auto split: sum.splits)
  have "doc_get db' j =
     map_option (fold (\<lambda>w d. if fst w = j then spread d (snd w) else d) ws) (doc_get db1 j)"
    using Cons.IH[OF c] .
  then show ?case
    using doc_update_get[OF u, of j] w by (cases "doc_get db j") (auto simp: option.map_comp comp_def)
qed

lemma fold_writes_assignedTherapist:
  "assignedTherapist
     (fold (\<lambda>w d. if fst w = j then spread d (snd w) else d)
        (map (\<lambda>x. (f x, [Set_assignedTherapist v, Set_assignedTherapistInfo i, Set_updatedAt t])) xs)
        d) =
   (if j \<in> f ` set xs then v else assignedTherapist d)"
  by (induction xs arbitrary: d) (auto simp: spread_def)

lemma run_query_where_set:
  "run_query db \<lparr>q_where = ws, q_orderBy = None, q_startAfter = None, q_limit = None\<rparr> = Inr docs \<Longrightarrow>
   set docs = {x \<in> set db. list_all (\<lambda>w. matches w x) ws}"
  by (auto simp: run_query_def Let_def split: if_splits)

lemma assignPatients_success:
  assumes "assignPatientsToTherapist tid patientIds now (db, c) = Inr (r, db', c')"
    and "doc_get db tid = Some therapistData"
  shows "\<exists>cur. run_query db
                   \<lparr>q_where = [Where_role ''patient'',
                                Where_assignedTherapist (uid therapistData)],
                    q_orderBy = None, q_startAfter = None, q_limit = None\<rparr> = Inr cur \<and>
               batch_commit db (assign_batch tid therapistData cur patientIds now) = Inr db'"
  using assms unfolding assignPatientsToTherapist_def
  by (simp split: if_splits sum.splits)

lemma assign_batch_shape:
  "assign_batch tid therapistData cur patientIds now =
     map (\<lambda>x. (fst x, [Set_assignedTherapist Undefined,
                 Set_assignedTherapistInfo Undefined, Set_updatedAt (Val now)])) cur
     @ map (\<lambda>x. (x, [Set_assignedTherapist (uid therapistData),
                 Set_assignedTherapistInfo (Val (therapist_info_of therapistData)),
                 Set_updatedAt (Val now)])) (case patientIds of Some ids \<Rightarrow> ids | None \<Rightarrow> [])
     @ [(tid, [Set_updatedAt (Val now)])]"
  by (cases patientIds) (simp_all add: assign_batch_def split_beta)

text \<open>
  On the field it reads, the therapist endpoint does the whole reassignment: after a
  successful call, a patient's \<open>assignedTherapist\<close> is the therapist's uid
  exactly when the patient is among \<open>patientIds\<close>.
\<close>

lemma assignPatients_sets_therapist_side_field:
  assumes ok: "assignPatientsToTherapist tid patientIds now (db, c) = Inr (r, db', c')"
    and T: "doc_get db tid = Some therapistData" and u: "uid therapistData = Val u"
    and j: "doc_get db j = Some d" and p: "role d = Val ''patient''"
  shows "\<exists>d'. doc_get db' j = Some d' \<and>
           (assignedTherapist d' = Val u \<longleftrightarrow>
              j \<in> set (case patientIds of Some ids \<Rightarrow> ids | None \<Rightarrow> []))"
proof -
  let ?ids = "case patientIds of Some ids \<Rightarrow> ids | None \<Rightarrow> []"
  obtain cur where
    q: "run_query db \<lparr>q_where = [Where_role ''patient'', Where_assignedTherapist (uid therapistData)],
             q_orderBy = None, q_startAfter = None, q_limit = None\<rparr> = Inr cur"
    and b: "batch_commit db (assign_batch tid therapistData cur patientIds now) = Inr db'"
    using assignPatients_success[OF ok T] by blast
  have "set cur = {x \<in> set db. list_all (\<lambda>w. matches w x)
                     [Where_role ''patient'', Where_assignedTherapist (uid therapistData)]}"
    using run_query_where_set[OF q] .
  then have cur: "x \<in> set cur \<longleftrightarrow>
                  x \<in> set db \<and> role (snd x) = Val ''patient'' \<and> assignedTherapist (snd x) = Val u" for x
    using u by (cases x) simp
  let ?step = "\<lambda>w d. if fst w = j then spread d (snd w) else d"
  let ?clear = "map (\<lambda>x. (fst x, [Set_assignedTherapist Undefined,
                 Set_assignedTherapistInfo Undefined, Set_updatedAt (Val now)])) cur"
  let ?assign = "map (\<lambda>x. (x, [Set_assignedTherapist (uid therapistData),
                 Set_assignedTherapistInfo (Val (therapist_info_of therapistData)),
                 Set_updatedAt (Val now)])) ?ids"
  let ?d1 = "fold ?step ?clear d"
  let ?d2 = "fold ?step ?assign ?d1"
  let ?d3 = "fold ?step [(tid, [Set_updatedAt (Val now)])] ?d2"
  have "doc_get db' j = map_option (fold ?step (?clear @ ?assign @ [(tid, [Set_updatedAt (Val now)])]))
                          (doc_get db j)"
    using batch_commit_get[OF b, of j] unfolding assign_batch_shape .
  then have get: "doc_get db' j = Some ?d3"
    unfolding j by (simp only: option.map fold_append comp_def)
  have a3: "assignedTherapist ?d3 = assignedTherapist ?d2" by (simp add: spread_def)
  have a2: "assignedTherapist ?d2 = (if j \<in> set ?ids then Val u else assignedTherapist ?d1)"
    using fold_writes_assignedTherapist[of j "\<lambda>x. x" "uid therapistData" _ _ ?ids ?d1]
    unfolding u by (simp only: image_ident)
  have a1: "assignedTherapist ?d1 = (if j \<in> fst ` set cur then Undefined else assignedTherapist d)"
    using fold_writes_assignedTherapist[of j fst Undefined _ _ cur d] .
  have mem: "(j, d) \<in> set db" using j by (simp add: doc_get_def map_of_SomeD)
  have n1: "assignedTherapist ?d1 \<noteq> Val u"
  proof (cases "j \<in> fst ` set cur")
    case True
    then show ?thesis unfolding a1 by simp
  next
    case False
    then have "(j, d) \<notin> set cur" by force
    then have "assignedTherapist d \<noteq> Val u" using cur[of "(j, d)"] mem p by simp
    then show ?thesis unfolding a1 using False by simp
  qed
  have "assignedTherapist ?d3 = Val u \<longleftrightarrow> j \<in> set ?ids"
    unfolding a3 a2 using n1 by simp
  then show ?thesis using get by blast
qed

text \<open>
  C2. \<open>assignPatientsToTherapist\<close> finds and clears the patients whose
  \<open>assignedTherapist\<close> equals the therapist's \<open>uid\<close>, while the
  patient-side \<open>assignTherapistToPatient\<close> records the assignment in
  \<open>assigned_therapist\<close>, as the therapist's document id. In the example,
  \<open>P\<close> is assigned to \<open>T\<close> through the patient endpoint; then
  \<open>N\<close> is assigned to \<open>T\<close> through the therapist endpoint. Both calls
  succeed, \<open>A\<close> and \<open>B\<close> are cleared and \<open>N\<close> is set, but
  \<open>P\<close>, which is not among the new patients, still references \<open>T\<close>.
\<close>

theorem assignPatients_misses_patient_side_assignment:
  "\<exists>r1 db1 r2 db2.
     assignTherapistToPatient ''P'' ''T'' ''2025-02-01T00:00:00.000Z'' (assign_db, [] :: nat cache)
       = Inr (r1, db1, []) \<and>
     assignPatientsToTherapist ''T'' (Some [''N'']) ''2025-02-02T00:00:00.000Z'' (db1, [] :: nat cache)
       = Inr (r2, db2, []) \<and>
     map_option assignedTherapist (doc_get db2 ''A'') = Some Undefined \<and>
     map_option assignedTherapist (doc_get db2 ''B'') = Some Undefined \<and>
     map_option assignedTherapist (doc_get db2 ''N'') = Some (Val ''uid-T'') \<and>
     map_option assigned_therapist (doc_get db2 ''P'') = Some (Val ''T'') \<and>
     ''P'' \<notin> set [''N'']"
  by (simp add: assignTherapistToPatient_def runTransaction_def assignTherapistToPatient_txn_def
        assignPatientsToTherapist_def assign_batch_def info_defined_def run_query_def
        cursor_ok_def doc_get_def spread_def
        clear_patient_caches_def clearCache_def map_keys_def map_clear_def
        assign_db_def therapist_T_def patient_of_T_def new_patient_def empty_doc_def
        therapist_info_of_def)

section \<open>Pagination: one record more than the page\<close>

lemma run_query_limit:
  "run_query db q = Inr docs \<Longrightarrow> q_limit q = Some n \<Longrightarrow> length docs \<le> n"
  by (auto simp: run_query_def Let_def split: if_splits)

lemma drop_extra_take: "length docs \<le> k + 1 \<Longrightarrow> drop_extra k docs = take k docs"
  by (cases "length docs = k + 1") (auto simp: drop_extra_def butlast_conv_take)

lemma getTherapists_query_limit [simp]:
  "q_limit (getTherapists_query q db) = Some (pageSize_of q + 1)"
  by (simp add: getTherapists_query_def)

lemma getPatients_query_limit [simp]:
  "q_limit (getPatients_query q db) = Some (patients_pageSize q + 1)"
  by (simp add: getPatients_query_def)

lemma client_filter_unfiltered:
  "param (tq_keyword q) = [] \<Longrightarrow> param (tq_experience q) = [] \<or> param (tq_experience q) = ''all''
   \<Longrightarrow> client_filter q ts = ts"
  by (auto simp: client_filter_def)

lemma client_filter_subset: "set (client_filter q ts) \<subseteq> set ts"
  by (auto simp: client_filter_def Let_def)

lemma transform_id [simp]: "t_id (transformTherapistData x) = fst x"
  by (cases x) (simp add: transformTherapistData_def)

lemma getTherapists_fetch_page:
  assumes "run_query db (getTherapists_query q db) = Inr snapshot"
    and "getTherapists_fetch q db = Inr r"
  shows "length snapshot \<le> pageSize_of q + 1"
    and "hasMore r = (length snapshot = pageSize_of q + 1)"
    and "map t_id (items r) =
           map t_id (client_filter q (map transformTherapistData (take (pageSize_of q) snapshot)))"
    and "lastDocId r = (if take (pageSize_of q) snapshot = [] then None
                        else Some (fst (last (take (pageSize_of q) snapshot))))"
proof -
  show len: "length snapshot \<le> pageSize_of q + 1"
    using run_query_limit[OF assms(1)] by simp
  have d: "drop_extra (pageSize_of q) snapshot = take (pageSize_of q) snapshot"
    using len by (rule drop_extra_take)
  from assms obtain counts where
    r: "r = \<lparr>items = map (\<lambda>t. t\<lparr>assignedPatientsCount := Some (count_for counts (t_uid t))\<rparr>)
                 (client_filter q (map transformTherapistData (take (pageSize_of q) snapshot))),
             hasMore = (length snapshot > pageSize_of q),
             lastDocId = (if length (take (pageSize_of q) snapshot) > 0
                          then Some (fst (last (take (pageSize_of q) snapshot))) else None),
             total = length (client_filter q (map transformTherapistData (take (pageSize_of q) snapshot)))\<rparr>"
    by (auto simp: getTherapists_fetch_def Let_def d simp del: map_map split: sum.splits)
  show "hasMore r = (length snapshot = pageSize_of q + 1)"
    using len by (auto simp: r)
  show "map t_id (items r) =
           map t_id (client_filter q (map transformTherapistData (take (pageSize_of q) snapshot)))"
    by (simp add: r comp_def)
  show "lastDocId r = (if take (pageSize_of q) snapshot = [] then None
                        else Some (fst (last (take (pageSize_of q) snapshot))))"
    by (simp add: r)
qed

lemma filter_throwing_Inr:
  "filter_throwing p xs = Inr ys \<Longrightarrow> ys = filter (\<lambda>x. p x = Inr True) xs"
  by (induction xs arbitrary: ys) (auto split: sum.splits if_splits)

lemma attach_id [simp]: "p_id (attach_therapist m p) = p_id p"
  by (simp add: attach_therapist_def split: option.splits)

lemma patient_row_id [simp]: "p_id (patient_row_of x) = fst x"
  by (cases x) (simp add: patient_row_of_def)

lemma getPatients_fetch_page:
  assumes "run_query db (getPatients_query q db) = Inr snapshot"
    and "getPatients_fetch q db = Inr r"
  shows "length snapshot \<le> patients_pageSize q + 1"
    and "hasMore r = (length snapshot = patients_pageSize q + 1)"
    and "set (map p_id (items r)) \<subseteq> set (map fst (take (patients_pageSize q) snapshot))"
    and "param (pq_keyword q) = [] \<Longrightarrow>
           map p_id (items r) = map fst (take (patients_pageSize q) snapshot)"
    and "lastDocId r = (if take (patients_pageSize q) snapshot = [] then None
                        else Some (fst (last (take (patients_pageSize q) snapshot))))"
proof -
  let ?k = "patients_pageSize q"
  show len: "length snapshot \<le> ?k + 1"
    using run_query_limit[OF assms(1)] by simp
  have d: "drop_extra ?k snapshot = take ?k snapshot"
    using len by (rule drop_extra_take)
  let ?pd = "map patient_row_of (take ?k snapshot)"
  from assms obtain tm fp where
    f: "(if param (pq_keyword q) \<noteq> []
         then filter_throwing (patient_keyword_match (toLowerCase (param (pq_keyword q))))
                (map (attach_therapist tm) ?pd)
         else Inr (map (attach_therapist tm) ?pd)) = Inr fp"
    and r: "r = \<lparr>items = fp, hasMore = (length snapshot > ?k),
             lastDocId = (if length ?pd > 0 then Some (p_id (last ?pd)) else None),
             total = length fp\<rparr>"
    by (auto simp: getPatients_fetch_def Let_def d simp del: map_map split: sum.splits)
  show "hasMore r = (length snapshot = ?k + 1)"
    using len by (auto simp: r)
  have sub: "set fp \<subseteq> set (map (attach_therapist tm) ?pd)"
  proof (cases "param (pq_keyword q) \<noteq> []")
    case True
    with f have "fp = filter (\<lambda>x. patient_keyword_match (toLowerCase (param (pq_keyword q))) x
                      = Inr True) (map (attach_therapist tm) ?pd)"
      using filter_throwing_Inr by auto
    then show ?thesis by auto
  next
    case False
    with f show ?thesis by auto
  qed
  show "set (map p_id (items r)) \<subseteq> set (map fst (take ?k snapshot))"
  proof
    fix i assume "i \<in> set (map p_id (items r))"
    then obtain x where "x \<in> set fp" "i = p_id x" by (auto simp: r)
    then obtain y where "y \<in> set (take ?k snapshot)" "x = attach_therapist tm (patient_row_of y)"
      using sub by auto
    then show "i \<in> set (map fst (take ?k snapshot))" using \<open>i = p_id x\<close> by auto
  qed
  show "map p_id (items r) = map fst (take ?k snapshot)" if "param (pq_keyword q) = []"
    using f that by (auto simp: r comp_def)
  show "lastDocId r = (if take ?k snapshot = [] then None
                        else Some (fst (last (take ?k snapshot))))"
    by (auto simp: r last_map)
qed

lemmas listing_defs =
  getTherapists_def getCachedData_def setCachedData_def getTherapists_fetch_def
  getTherapists_query_def run_query_def cursor_ok_def cursor_of_def ordered_desc_def order_key_def
  doc_get_def map_get_def param_def pageSize_of_def drop_extra_def client_filter_def
  transformTherapistData_def patientCounts_queries_def count_lookup_query_def count_for_def
  chunks_from.simps count_doc_def
  getPatients_def getCachedData_or_fetch_def getPatients_fetch_def getPatients_query_def
  patients_pageSize_def patient_row_of_def therapistIds_of_def therapistMap_of_def
  attach_therapist_def patients_cacheKey_def set_add_def

lemma eleven_therapists_pages:
  "\<exists>r1 s1 r2 s2.
     getTherapists first_page_of_ten ''{pageSize:10}'' 0 (eleven_therapists, []) = (Inr r1, s1) \<and>
     map t_id (items r1) =
       [''t11'', ''t10'', ''t09'', ''t08'', ''t07'', ''t06'', ''t05'', ''t04'', ''t03'', ''t02''] \<and>
     length (items r1) = 10 \<and> hasMore r1 \<and> lastDocId r1 = Some ''t02'' \<and>
     getTherapists (first_page_of_ten\<lparr>tq_lastDocId := lastDocId r1\<rparr>)
       ''{pageSize:10,lastDocId:t02}'' 1000 s1 = (Inr r2, s2) \<and>
     map t_id (items r2) = [''t01''] \<and> \<not> hasMore r2"
  by (simp add: listing_defs first_page_of_ten_def eleven_therapists_def therapist_at_def
        empty_doc_def Let_def)

lemma eleven_patients_pages:
  "\<exists>r1 s1 r2 s2.
     getPatients first_patients_of_ten 0 (eleven_patients, []) = (Inr r1, s1) \<and>
     map p_id (items r1) =
       [''p11'', ''p10'', ''p09'', ''p08'', ''p07'', ''p06'', ''p05'', ''p04'', ''p03'', ''p02''] \<and>
     length (items r1) = 10 \<and> hasMore r1 \<and> lastDocId r1 = Some ''p02'' \<and>
     getPatients (first_patients_of_ten\<lparr>pq_lastDocId := lastDocId r1\<rparr>) 1000 s1 = (Inr r2, s2) \<and>
     map p_id (items r2) = [''p01''] \<and> \<not> hasMore r2"
  by (simp add: listing_defs first_patients_of_ten_def eleven_patients_def new_patient_def
        empty_doc_def Let_def show_nat.simps)

text \<open>
  C3. The page size \<open>k\<close> of a therapist list request is its \<open>pageSize\<close>, or
  15 when it has none; the page size \<open>j\<close> of a patient list request is its
  \<open>pageSize\<close> when that is at least 1, and 10 when it is missing or 0. Both list
  queries carry the limit ``page size plus one''. When the store answers the query with
  \<open>snapshot\<close> and the fetch answers a page, the snapshot has at most that many
  records, \<open>hasMore\<close> says whether it has exactly that many, and the items come
  from the first ``page size'' records of the snapshot only (they are exactly these
  when no client-side filter is active), so the extra record is never among them. For
  eleven therapists (and for eleven patients) and a page size of ten, the first call
  answers ten items with \<open>hasMore\<close>, and the call with the returned cursor answers
  the remaining item without \<open>hasMore\<close>.
\<close>

theorem paginated_fetch_asks_one_more:
  "(tq_pageSize tq = Some k \<or> tq_pageSize tq = None \<and> k = 15 \<longrightarrow>
      q_limit (getTherapists_query tq db) = Some (k + 1) \<and>
      (run_query db (getTherapists_query tq db) = Inr tsnap \<and>
       getTherapists_fetch tq db = Inr tr \<longrightarrow>
         length tsnap \<le> k + 1 \<and>
         hasMore tr = (length tsnap = k + 1) \<and>
         set (map t_id (items tr)) \<subseteq> set (map fst (take k tsnap)) \<and>
         (param (tq_keyword tq) = [] \<and>
          (param (tq_experience tq) = [] \<or> param (tq_experience tq) = ''all'') \<longrightarrow>
            map t_id (items tr) = map fst (take k tsnap)))) \<and>
   (pq_pageSize pq = Some j \<and> 0 < j \<or>
    (pq_pageSize pq = None \<or> pq_pageSize pq = Some 0) \<and> j = 10 \<longrightarrow>
      q_limit (getPatients_query pq db) = Some (j + 1) \<and>
      (run_query db (getPatients_query pq db) = Inr psnap \<and>
       getPatients_fetch pq db = Inr pr \<longrightarrow>
         length psnap \<le> j + 1 \<and>
         hasMore pr = (length psnap = j + 1) \<and>
         set (map p_id (items pr)) \<subseteq> set (map fst (take j psnap)) \<and>
         (param (pq_keyword pq) = [] \<longrightarrow>
            map p_id (items pr) = map fst (take j psnap)))) \<and>
   (\<exists>r1 s1 r2 s2.
      getTherapists first_page_of_ten ''{pageSize:10}'' 0 (eleven_therapists, []) = (Inr r1, s1) \<and>
      map t_id (items r1) =
        [''t11'', ''t10'', ''t09'', ''t08'', ''t07'', ''t06'', ''t05'', ''t04'', ''t03'', ''t02''] \<and>
      length (items r1) = 10 \<and> hasMore r1 \<and> lastDocId r1 = Some ''t02'' \<and>
      getTherapists (first_page_of_ten\<lparr>tq_lastDocId := lastDocId r1\<rparr>)
        ''{pageSize:10,lastDocId:t02}'' 1000 s1 = (Inr r2, s2) \<and>
      map t_id (items r2) = [''t01''] \<and> \<not> hasMore r2) \<and>
   (\<exists>r1 s1 r2 s2.
      getPatients first_patients_of_ten 0 (eleven_patients, []) = (Inr r1, s1) \<and>
      map p_id (items r1) =
        [''p11'', ''p10'', ''p09'', ''p08'', ''p07'', ''p06'', ''p05'', ''p04'', ''p03'', ''p02''] \<and>
      length (items r1) = 10 \<and> hasMore r1 \<and> lastDocId r1 = Some ''p02'' \<and>
      getPatients (first_patients_of_ten\<lparr>pq_lastDocId := lastDocId r1\<rparr>) 1000 s1
        = (Inr r2, s2) \<and>
      map p_id (items r2) = [''p01''] \<and> \<not> hasMore r2)"
proof -
  have tk: "pageSize_of tq = k" if "tq_pageSize tq = Some k \<or> tq_pageSize tq = None \<and> k = 15"
    using that by (auto simp: pageSize_of_def)
  have pj: "patients_pageSize pq = j"
    if "pq_pageSize pq = Some j \<and> 0 < j \<or>
        (pq_pageSize pq = None \<or> pq_pageSize pq = Some 0) \<and> j = 10"
    using that by (auto simp: patients_pageSize_def)
  have t: "length tsnap \<le> pageSize_of tq + 1 \<and>
      hasMore tr = (length tsnap = pageSize_of tq + 1) \<and>
      set (map t_id (items tr)) \<subseteq> set (map fst (take (pageSize_of tq) tsnap)) \<and>
      (param (tq_keyword tq) = [] \<and>
       (param (tq_experience tq) = [] \<or> param (tq_experience tq) = ''all'') \<longrightarrow>
         map t_id (items tr) = map fst (take (pageSize_of tq) tsnap))"
    if a: "run_query db (getTherapists_query tq db) = Inr tsnap"
      and b: "getTherapists_fetch tq db = Inr tr"
  proof -
    let ?page = "map transformTherapistData (take (pageSize_of tq) tsnap)"
    have ids: "map t_id (items tr) = map t_id (client_filter tq ?page)"
      using getTherapists_fetch_page(3)[OF a b] .
    have m: "map t_id ?page = map fst (take (pageSize_of tq) tsnap)"
      by (simp add: comp_def)
    have "set (map t_id (client_filter tq ?page)) \<subseteq> set (map t_id ?page)"
      using image_mono[OF client_filter_subset[of tq ?page], of t_id] by (simp add: image_image)
    then have "set (map t_id (items tr)) \<subseteq> set (map t_id ?page)"
      by (simp only: ids)
    then have sub: "set (map t_id (items tr)) \<subseteq> set (map fst (take (pageSize_of tq) tsnap))"
      by (simp only: m)
    have eq: "map t_id (items tr) = map fst (take (pageSize_of tq) tsnap)"
      if "param (tq_keyword tq) = []"
        and "param (tq_experience tq) = [] \<or> param (tq_experience tq) = ''all''"
    proof -
      have "map t_id (items tr) = map t_id ?page"
        using ids client_filter_unfiltered[OF that, of ?page] by (simp only:)
      then show ?thesis by (simp only: m)
    qed
    show ?thesis
      using getTherapists_fetch_page(1,2)[OF a b] sub eq by blast
  qed
  have p: "length psnap \<le> patients_pageSize pq + 1 \<and>
      hasMore pr = (length psnap = patients_pageSize pq + 1) \<and>
      set (map p_id (items pr)) \<subseteq> set (map fst (take (patients_pageSize pq) psnap)) \<and>
      (param (pq_keyword pq) = [] \<longrightarrow>
         map p_id (items pr) = map fst (take (patients_pageSize pq) psnap))"
    if a: "run_query db (getPatients_query pq db) = Inr psnap"
      and b: "getPatients_fetch pq db = Inr pr"
    using getPatients_fetch_page(1,2,3,4)[OF a b] by blast
  have T: "q_limit (getTherapists_query tq db) = Some (k + 1) \<and>
      (run_query db (getTherapists_query tq db) = Inr tsnap \<and>
       getTherapists_fetch tq db = Inr tr \<longrightarrow>
         length tsnap \<le> k + 1 \<and>
         hasMore tr = (length tsnap = k + 1) \<and>
         set (map t_id (items tr)) \<subseteq> set (map fst (take k tsnap)) \<and>
         (param (tq_keyword tq) = [] \<and>
          (param (tq_experience tq) = [] \<or> param (tq_experience tq) = ''all'') \<longrightarrow>
            map t_id (items tr) = map fst (take k tsnap)))"
    if h: "tq_pageSize tq = Some k \<or> tq_pageSize tq = None \<and> k = 15"
    using t getTherapists_query_limit[of tq db] unfolding tk[OF h] by blast
  have P: "q_limit (getPatients_query pq db) = Some (j + 1) \<and>
      (run_query db (getPatients_query pq db) = Inr psnap \<and>
       getPatients_fetch pq db = Inr pr \<longrightarrow>
         length psnap \<le> j + 1 \<and>
         hasMore pr = (length psnap = j + 1) \<and>
         set (map p_id (items pr)) \<subseteq> set (map fst (take j psnap)) \<and>
         (param (pq_keyword pq) = [] \<longrightarrow>
            map p_id (items pr) = map fst (take j psnap)))"
    if h: "pq_pageSize pq = Some j \<and> 0 < j \<or>
        (pq_pageSize pq = None \<or> pq_pageSize pq = Some 0) \<and> j = 10"
    using p getPatients_query_limit[of pq db] unfolding pj[OF h] by blast
  show ?thesis
    using T P eleven_therapists_pages eleven_patients_pages by blast
qed

text \<open>
  Two records and a page size of one, for either list: the store is asked for two
  records and returns both, the page holds the first and \<open>hasMore\<close> is set.
\<close>

lemma two_therapists_snapshot:
  "run_query two_therapists
     (getTherapists_query (no_params\<lparr>tq_pageSize := Some 1\<rparr>) two_therapists) =
   Inr two_therapists"
  by (simp add: listing_defs no_params_def two_therapists_def therapist_at_def empty_doc_def)

lemma two_therapists_fetch:
  "\<exists>r. getTherapists_fetch (no_params\<lparr>tq_pageSize := Some 1\<rparr>) two_therapists = Inr r"
  by (simp add: listing_defs no_params_def two_therapists_def therapist_at_def empty_doc_def
        Let_def)

lemma two_patients_snapshot:
  "run_query two_patients
     (getPatients_query (no_patient_params\<lparr>pq_pageSize := Some 1\<rparr>) two_patients) =
   Inr two_patients"
  by (simp add: listing_defs no_patient_params_def two_patients_def new_patient_def empty_doc_def)

lemma two_patients_fetch:
  "\<exists>r. getPatients_fetch (no_patient_params\<lparr>pq_pageSize := Some 1\<rparr>) two_patients = Inr r"
  by (simp add: listing_defs no_patient_params_def two_patients_def new_patient_def empty_doc_def
        Let_def)

theorem paginated_fetch_asks_one_more_witness:
  "run_query two_therapists
     (getTherapists_query (no_params\<lparr>tq_pageSize := Some 1\<rparr>) two_therapists) =
     Inr two_therapists \<and>
   (\<exists>r. getTherapists_fetch (no_params\<lparr>tq_pageSize := Some 1\<rparr>) two_therapists = Inr r \<and>
        length two_therapists = 1 + 1 \<and> hasMore r \<and> map t_id (items r) = [''t1'']) \<and>
   q_limit (getPatients_query (no_patient_params\<lparr>pq_pageSize := Some 1\<rparr>) two_patients) =
     Some (1 + 1) \<and>
   run_query two_patients
     (getPatients_query (no_patient_params\<lparr>pq_pageSize := Some 1\<rparr>) two_patients) =
     Inr two_patients \<and>
   (\<exists>r. getPatients_fetch (no_patient_params\<lparr>pq_pageSize := Some 1\<rparr>) two_patients = Inr r \<and>
        length two_patients = 1 + 1 \<and> hasMore r \<and> map p_id (items r) = [''p1''])"
proof -
  let ?q = "no_params\<lparr>tq_pageSize := Some 1\<rparr>"
  let ?p = "no_patient_params\<lparr>pq_pageSize := Some 1\<rparr>"
  obtain r where f: "getTherapists_fetch ?q two_therapists = Inr r"
    using two_therapists_fetch by blast
  obtain pr where g: "getPatients_fetch ?p two_patients = Inr pr"
    using two_patients_fetch by blast
  have k: "tq_pageSize ?q = Some 1" "pq_pageSize ?p = Some 1"
    by simp_all
  have n: "param (tq_keyword ?q) = []" "param (tq_experience ?q) = []"
    "param (pq_keyword ?p) = []"
    by (simp_all add: param_def no_params_def no_patient_params_def)
  have l: "length two_therapists = 1 + 1" "map fst (take 1 two_therapists) = [''t1'']"
    "length two_patients = 1 + 1" "map fst (take 1 two_patients) = [''p1'']"
    by (simp_all add: two_therapists_def two_patients_def)
  have A: "hasMore r \<and> map t_id (items r) = [''t1'']"
    using conjunct1[OF paginated_fetch_asks_one_more[where tq = ?q and k = 1
          and db = two_therapists and tsnap = two_therapists and tr = r]]
      two_therapists_snapshot f k(1) n(1,2) l(1,2) by simp
  have B: "q_limit (getPatients_query ?p two_patients) = Some (1 + 1) \<and>
           hasMore pr \<and> map p_id (items pr) = [''p1'']"
    using conjunct1[OF conjunct2[OF paginated_fetch_asks_one_more[where pq = ?p and j = 1
          and db = two_patients and psnap = two_patients and pr = pr]]]
      two_patients_snapshot g k(2) n(3) l(3,4) by simp
  show ?thesis
    using A B two_therapists_snapshot two_patients_snapshot f g l(1,3) by simp
qed

text \<open>
  A patient list request with \<open>pageSize=0\<close> is not answered with a page of size
  0: \<open>Number(req.query.pageSize) || 10\<close> is 10, the store is asked for eleven
  records and not for one, and the two patients of the store are both returned, without
  \<open>hasMore\<close>.
\<close>

theorem patients_pageSize_zero_counterexample:
  "pq_pageSize (no_patient_params\<lparr>pq_pageSize := Some 0\<rparr>) = Some 0 \<and>
   q_limit (getPatients_query (no_patient_params\<lparr>pq_pageSize := Some 0\<rparr>) two_patients)
     = Some 11 \<and>
   q_limit (getPatients_query (no_patient_params\<lparr>pq_pageSize := Some 0\<rparr>) two_patients)
     \<noteq> Some (0 + 1) \<and>
   (\<exists>r. getPatients_fetch (no_patient_params\<lparr>pq_pageSize := Some 0\<rparr>) two_patients = Inr r \<and>
        map p_id (items r) = [''p1'', ''p2''] \<and> \<not> hasMore r)"
  by (simp add: listing_defs no_patient_params_def two_patients_def new_patient_def empty_doc_def
        Let_def)

section \<open>The cursor of a page\<close>

lemma last_ids:
  assumes "map f xs = map g ys"
  shows "(if xs = [] then None else Some (f (last xs))) =
         (if ys = [] then None else Some (g (last ys)))"
proof (cases "ys = []")
  case True
  then show ?thesis using assms by simp
next
  case False
  then have "xs \<noteq> []" using assms by auto
  have "f (last xs) = last (map f xs)" using \<open>xs \<noteq> []\<close> by (simp add: last_map)
  also have "\<dots> = g (last ys)" using False assms by (simp add: last_map)
  finally show ?thesis using False \<open>xs \<noteq> []\<close> by simp
qed

text \<open>
  C6, as the code has it. The cursor of a page is the id of the last record of the
  store-level page: the records the store returned, the extra one dropped, before the
  keyword and experience filters run (\<open>None\<close>, the source's \<open>null\<close>, when that
  page is empty). When no client-side filter is active, this is the id of the last
  item returned.
\<close>

theorem cursor_is_last_of_store_page:
  "(run_query db (getTherapists_query tq db) = Inr tsnap \<and> getTherapists_fetch tq db = Inr tr \<longrightarrow>
      lastDocId tr =
        (if take (pageSize_of tq) tsnap = [] then None
         else Some (fst (last (take (pageSize_of tq) tsnap)))) \<and>
      (param (tq_keyword tq) = [] \<and>
       (param (tq_experience tq) = [] \<or> param (tq_experience tq) = ''all'') \<longrightarrow>
         lastDocId tr = (if items tr = [] then None else Some (t_id (last (items tr)))))) \<and>
   (run_query db (getPatients_query pq db) = Inr psnap \<and> getPatients_fetch pq db = Inr pr \<longrightarrow>
      lastDocId pr =
        (if take (patients_pageSize pq) psnap = [] then None
         else Some (fst (last (take (patients_pageSize pq) psnap)))) \<and>
      (param (pq_keyword pq) = [] \<longrightarrow>
         lastDocId pr = (if items pr = [] then None else Some (p_id (last (items pr))))))"
proof -
  have t: "lastDocId tr =
        (if take (pageSize_of tq) tsnap = [] then None
         else Some (fst (last (take (pageSize_of tq) tsnap)))) \<and>
      (param (tq_keyword tq) = [] \<and>
       (param (tq_experience tq) = [] \<or> param (tq_experience tq) = ''all'') \<longrightarrow>
         lastDocId tr = (if items tr = [] then None else Some (t_id (last (items tr)))))"
    if a: "run_query db (getTherapists_query tq db) = Inr tsnap"
      and b: "getTherapists_fetch tq db = Inr tr"
  proof -
    let ?page = "map transformTherapistData (take (pageSize_of tq) tsnap)"
    have c: "lastDocId tr =
        (if take (pageSize_of tq) tsnap = [] then None
         else Some (fst (last (take (pageSize_of tq) tsnap))))"
      using getTherapists_fetch_page(4)[OF a b] .
    have "lastDocId tr = (if items tr = [] then None else Some (t_id (last (items tr))))"
      if "param (tq_keyword tq) = []"
        and "param (tq_experience tq) = [] \<or> param (tq_experience tq) = ''all''"
    proof -
      have "map t_id (items tr) = map t_id ?page"
        using getTherapists_fetch_page(3)[OF a b] client_filter_unfiltered[OF that, of ?page]
        by (simp only:)
      then have "map t_id (items tr) = map fst (take (pageSize_of tq) tsnap)"
        by (simp add: comp_def)
      then show ?thesis using last_ids c by metis
    qed
    then show ?thesis using c by blast
  qed
  have p: "lastDocId pr =
        (if take (patients_pageSize pq) psnap = [] then None
         else Some (fst (last (take (patients_pageSize pq) psnap)))) \<and>
      (param (pq_keyword pq) = [] \<longrightarrow>
         lastDocId pr = (if items pr = [] then None else Some (p_id (last (items pr)))))"
    if a: "run_query db (getPatients_query pq db) = Inr psnap"
      and b: "getPatients_fetch pq db = Inr pr"
  proof -
    have c: "lastDocId pr =
        (if take (patients_pageSize pq) psnap = [] then None
         else Some (fst (last (take (patients_pageSize pq) psnap))))"
      using getPatients_fetch_page(5)[OF a b] .
    have "lastDocId pr = (if items pr = [] then None else Some (p_id (last (items pr))))"
      if "param (pq_keyword pq) = []"
      using last_ids[OF getPatients_fetch_page(4)[OF a b that]] c by simp
    then show ?thesis using c by blast
  qed
  show ?thesis using t p by blast
qed

theorem cursor_is_last_of_store_page_witness:
  "run_query two_therapists
     (getTherapists_query (no_params\<lparr>tq_pageSize := Some 1\<rparr>) two_therapists) =
     Inr two_therapists \<and>
   (\<exists>r. getTherapists_fetch (no_params\<lparr>tq_pageSize := Some 1\<rparr>) two_therapists = Inr r \<and>
        lastDocId r = Some ''t1'' \<and>
        lastDocId r = (if items r = [] then None else Some (t_id (last (items r)))))"
proof -
  let ?q = "no_params\<lparr>tq_pageSize := Some 1\<rparr>"
  obtain r where f: "getTherapists_fetch ?q two_therapists = Inr r"
    using two_therapists_fetch by blast
  have k: "pageSize_of ?q = 1"
    by (simp add: pageSize_of_def no_params_def)
  have n: "param (tq_keyword ?q) = []" "param (tq_experience ?q) = []"
    by (simp_all add: param_def no_params_def)
  have l: "take 1 two_therapists \<noteq> []" "fst (last (take 1 two_therapists)) = ''t1''"
    by (simp_all add: two_therapists_def)
  note th = conjunct1[OF cursor_is_last_of_store_page[of two_therapists ?q two_therapists r]]
  show ?thesis
    using th two_therapists_snapshot f n l unfolding k by auto
qed

text \<open>
  With the keyword \<open>ann\<close> the page of the two therapists keeps only \<open>t1\<close>, and
  the cursor is still \<open>t2\<close>, the last record the store returned.
\<close>

theorem cursor_after_keyword_filter_counterexample:
  "\<exists>r. getTherapists_fetch (no_params\<lparr>tq_keyword := Some ''ann''\<rparr>) two_therapists = Inr r \<and>
       map t_id (items r) = [''t1''] \<and> lastDocId r = Some ''t2'' \<and>
       lastDocId r \<noteq> Some (t_id (last (items r)))"
  by (simp add: listing_defs no_params_def two_therapists_def therapist_at_def empty_doc_def
        Let_def therapist_keyword_match_def toLowerCase_def lowerChar_def)

section \<open>Filters that are no-ops\<close>

text \<open>
  A request that finds nothing under its cache key is answered with what the fetch
  computes from the store.
\<close>

lemma getTherapists_uncached:
  "getCachedData cache now (''therapists_'' @ j) = None \<Longrightarrow>
   fst (getTherapists q j now (db, cache)) = getTherapists_fetch q db"
  by (simp add: getTherapists_def Let_def split: sum.splits)

lemma getPatients_uncached:
  "map_get cache (patients_cacheKey q) = None \<Longrightarrow>
   fst (getPatients q now (db, cache)) = getPatients_fetch q db"
  by (simp add: getPatients_def getCachedData_or_fetch_def Let_def split: sum.splits)

text \<open>
  C5, as the code has it. For the therapist list, the value \<open>all\<close>, the empty
  string and a missing parameter give the same fetch for each of
  \<open>specialization\<close>, \<open>isVerified\<close>, \<open>isProfileComplete\<close> and
  \<open>experience\<close>. For \<open>keyword\<close> (both lists) and for the patient list's
  \<open>profileComplete\<close>, the empty string and a missing parameter give the same
  fetch. The statement is about what is computed from the store: the cache keys of the
  two requests differ.
\<close>

theorem all_valued_filters_are_noops:
  "getTherapists_fetch (q\<lparr>tq_specialization := Some ''all''\<rparr>) db =
     getTherapists_fetch (q\<lparr>tq_specialization := None\<rparr>) db \<and>
   getTherapists_fetch (q\<lparr>tq_specialization := Some ''''\<rparr>) db =
     getTherapists_fetch (q\<lparr>tq_specialization := None\<rparr>) db \<and>
   getTherapists_fetch (q\<lparr>tq_isVerified := Some ''all''\<rparr>) db =
     getTherapists_fetch (q\<lparr>tq_isVerified := None\<rparr>) db \<and>
   getTherapists_fetch (q\<lparr>tq_isVerified := Some ''''\<rparr>) db =
     getTherapists_fetch (q\<lparr>tq_isVerified := None\<rparr>) db \<and>
   getTherapists_fetch (q\<lparr>tq_isProfileComplete := Some ''all''\<rparr>) db =
     getTherapists_fetch (q\<lparr>tq_isProfileComplete := None\<rparr>) db \<and>
   getTherapists_fetch (q\<lparr>tq_isProfileComplete := Some ''''\<rparr>) db =
     getTherapists_fetch (q\<lparr>tq_isProfileComplete := None\<rparr>) db \<and>
   getTherapists_fetch (q\<lparr>tq_experience := Some ''all''\<rparr>) db =
     getTherapists_fetch (q\<lparr>tq_experience := None\<rparr>) db \<and>
   getTherapists_fetch (q\<lparr>tq_experience := Some ''''\<rparr>) db =
     getTherapists_fetch (q\<lparr>tq_experience := None\<rparr>) db \<and>
   getTherapists_fetch (q\<lparr>tq_keyword := Some ''''\<rparr>) db =
     getTherapists_fetch (q\<lparr>tq_keyword := None\<rparr>) db \<and>
   getPatients_fetch (p\<lparr>pq_keyword := Some ''''\<rparr>) db =
     getPatients_fetch (p\<lparr>pq_keyword := None\<rparr>) db \<and>
   getPatients_fetch (p\<lparr>pq_profileComplete := Some ''''\<rparr>) db =
     getPatients_fetch (p\<lparr>pq_profileComplete := None\<rparr>) db"
proof -
  have t: "getTherapists_fetch a db = getTherapists_fetch b db"
    if "pageSize_of a = pageSize_of b"
      "getTherapists_query a db = getTherapists_query b db"
      "client_filter a = client_filter b" for a b
    unfolding getTherapists_fetch_def that ..
  have p: "getPatients_fetch a db = getPatients_fetch b db"
    if "patients_pageSize a = patients_pageSize b" "param (pq_keyword a) = param (pq_keyword b)"
      "getPatients_query a db = getPatients_query b db" for a b
    unfolding getPatients_fetch_def that ..
  show ?thesis
    by (intro conjI t p)
      (simp_all add: getTherapists_query_def getPatients_query_def client_filter_def
        param_def pageSize_of_def patients_pageSize_def fun_eq_iff)
qed

text \<open>
  The keyword \<open>all\<close> is searched for like any other keyword: neither of the two
  therapists contains it in a searched field, so the page is empty, while the request
  without keyword lists both.
\<close>

theorem keyword_all_is_a_search_term_counterexample:
  "\<exists>r r'. getTherapists_fetch (no_params\<lparr>tq_keyword := Some ''all''\<rparr>) two_therapists = Inr r \<and>
          getTherapists_fetch no_params two_therapists = Inr r' \<and>
          items r = [] \<and> map t_id (items r') = [''t1'', ''t2'']"
  by (simp add: listing_defs no_params_def two_therapists_def therapist_at_def empty_doc_def
        Let_def therapist_keyword_match_def toLowerCase_def lowerChar_def)

section \<open>Batched lookups of foreign references\<close>

text \<open>
  The chunks \<open>getTherapists\<close> (and the summary) build: together they are the
  ids, each chunk has between one and ten ids, and there are \<open>\<lceil>n / 10\<rceil>\<close> of them.
\<close>

lemma chunks_from_concat: "concat (chunks_from i ids) = drop i ids"
proof (induction i ids rule: chunks_from.induct)
  case (1 i ids)
  show ?case
  proof (cases "i < length ids")
    case True
    then have "concat (chunks_from i ids) = take 10 (drop i ids) @ drop (i + 10) ids"
      using 1 by (simp add: chunks_from.simps[of i ids])
    moreover have "drop (i + 10) ids = drop 10 (drop i ids)"
      by (simp add: add.commute)
    ultimately have "concat (chunks_from i ids) = take 10 (drop i ids) @ drop 10 (drop i ids)"
      by (simp only:)
    then show ?thesis by (simp only: append_take_drop_id)
  next
    case False
    then show ?thesis by (simp add: chunks_from.simps[of i ids])
  qed
qed

lemma chunks_from_sizes:
  "c \<in> set (chunks_from i ids) \<Longrightarrow> 0 < length c \<and> length c \<le> 10"
proof (induction i ids rule: chunks_from.induct)
  case (1 i ids)
  show ?case
  proof (cases "i < length ids")
    case True
    then have "c = take 10 (drop i ids) \<or> c \<in> set (chunks_from (i + 10) ids)"
      using "1.prems" by (simp add: chunks_from.simps[of i ids])
    then show ?thesis using True "1.IH" by auto
  next
    case False
    then show ?thesis using "1.prems" by (simp add: chunks_from.simps[of i ids])
  qed
qed

lemma chunks_from_count: "length (chunks_from i ids) = (length ids - i + 9) div 10"
proof (induction i ids rule: chunks_from.induct)
  case (1 i ids)
  show ?case
  proof (cases "i < length ids")
    case True
    then have "length (chunks_from i ids) = Suc ((length ids - (i + 10) + 9) div 10)"
      using 1 by (simp add: chunks_from.simps[of i ids])
    also have "\<dots> = (length ids - i + 9) div 10"
      using True by (cases "i + 10 \<le> length ids") auto
    finally show ?thesis .
  next
    case False
    then show ?thesis by (simp add: chunks_from.simps[of i ids])
  qed
qed

lemma patientCounts_queries_batched:
  "length (patientCounts_queries ids) = (length ids + 9) div 10"
  "q \<in> set (patientCounts_queries ids) \<Longrightarrow>
     \<exists>chunk. q = count_lookup_query chunk \<and> 0 < length chunk \<and> length chunk \<le> 10"
  using chunks_from_sizes[of _ 0 ids]
  by (auto simp: patientCounts_queries_def chunks_from_count chunks_from.simps[of 0 "[]"])

text \<open>
  \<open>getPatients\<close> has no chunking, and its lookup is never issued: as soon as one
  patient of the page has a truthy \<open>assigned_therapist\<close>, the set of therapist ids
  is not empty and the fetch ends with the \<open>TypeError\<close> of
  \<open>db.FieldPath.documentId()\<close>.
\<close>

lemma therapistIds_of_nonempty_aux:
  "fold (\<lambda>p s. if truthy_str (assigned_therapist (p_data p))
                 then set_add (or_empty (assigned_therapist (p_data p))) s else s) ps acc = []
   \<longleftrightarrow> acc = [] \<and> (\<forall>p \<in> set ps. \<not> truthy_str (assigned_therapist (p_data p)))"
  by (induction ps arbitrary: acc) (auto simp: set_add_def)

lemma therapistIds_of_empty_iff:
  "therapistIds_of ps = [] \<longleftrightarrow> (\<forall>p \<in> set ps. \<not> truthy_str (assigned_therapist (p_data p)))"
  by (simp add: therapistIds_of_def therapistIds_of_nonempty_aux)

lemma getPatients_fetch_throws:
  assumes "run_query db (getPatients_query q db) = Inr snapshot"
    and "x \<in> set (drop_extra (patients_pageSize q) snapshot)"
    and "truthy_str (assigned_therapist (snd x))"
  shows "getPatients_fetch q db = Inl (Thrown ''TypeError'')"
proof -
  let ?pd = "map patient_row_of (drop_extra (patients_pageSize q) snapshot)"
  have "patient_row_of x \<in> set ?pd" using assms(2) by simp
  moreover have "truthy_str (assigned_therapist (p_data (patient_row_of x)))"
    using assms(3) by (simp add: patient_row_of_def split_beta)
  ultimately have "therapistIds_of ?pd \<noteq> []"
    using therapistIds_of_empty_iff[of ?pd] by blast
  then have "therapistMap_of (therapistIds_of ?pd) = Inl (Thrown ''TypeError'')"
    by (simp add: therapistMap_of_def)
  then show ?thesis
    using assms(1) by (simp add: getPatients_fetch_def Let_def)
qed

text \<open>
  The page of the twenty-five patients, as the store returns it for a page size of 25,
  and the therapist ids collected from it.
\<close>

lemma twenty_five_snapshot:
  "run_query twenty_five_patients
     (getPatients_query (no_patient_params\<lparr>pq_pageSize := Some 25\<rparr>) twenty_five_patients)
   = Inr (rev twenty_five_patients)"
  by (simp add: getPatients_query_def run_query_def cursor_ok_def cursor_of_def ordered_desc_def
        order_key_def param_def patients_pageSize_def no_patient_params_def
        twenty_five_patients_def new_patient_def empty_doc_def)

lemma twenty_five_ids:
  "therapistIds_of (map patient_row_of (drop_extra 25 (rev twenty_five_patients))) =
     [''T25'', ''T24'', ''T23'', ''T22'', ''T21'', ''T20'', ''T19'', ''T18'', ''T17'', ''T16'',
      ''T15'', ''T14'', ''T13'', ''T12'', ''T11'', ''T10'', ''T09'', ''T08'', ''T07'', ''T06'',
      ''T05'', ''T04'', ''T03'', ''T02'', ''T01'']"
  by (simp add: therapistIds_of_def patient_row_of_def drop_extra_def set_add_def
        twenty_five_patients_def new_patient_def empty_doc_def)

text \<open>
  C1. For the page of the twenty-five patients, each with a therapist of their own, the
  set holds twenty-five distinct ids; \<open>getPatients\<close> issues no lookup for them
  and the request fails with a \<open>TypeError\<close>, where three lookups of at most ten
  ids, merged into one mapping, are claimed. The chunks of \<open>getTherapists\<close> for
  as many ids have the sizes 10, 10 and 5, in three queries.
\<close>

theorem getPatients_lookup_throws:
  "\<exists>snapshot ids.
     run_query twenty_five_patients
       (getPatients_query (no_patient_params\<lparr>pq_pageSize := Some 25\<rparr>) twenty_five_patients)
       = Inr snapshot \<and>
     ids = therapistIds_of (map patient_row_of (drop_extra 25 snapshot)) \<and>
     length ids = 25 \<and> distinct ids \<and>
     therapistMap_of ids = Inl (Thrown ''TypeError'') \<and>
     getPatients_fetch (no_patient_params\<lparr>pq_pageSize := Some 25\<rparr>) twenty_five_patients
       = Inl (Thrown ''TypeError'') \<and>
     fst (getPatients (no_patient_params\<lparr>pq_pageSize := Some 25\<rparr>) 0
            (twenty_five_patients, [])) = Inl (Thrown ''TypeError'') \<and>
     map length (chunks_from 0 ids) = [10, 10, 5] \<and>
     length (patientCounts_queries (map Val ids)) = 3"
proof -
  let ?q = "no_patient_params\<lparr>pq_pageSize := Some 25\<rparr>"
  let ?ids = "therapistIds_of (map patient_row_of (drop_extra 25 (rev twenty_five_patients)))"
  have k: "patients_pageSize ?q = 25"
    by (simp add: patients_pageSize_def)
  have l: "therapistMap_of ?ids = Inl (Thrown ''TypeError'')"
    unfolding twenty_five_ids by (simp add: therapistMap_of_def)
  have f: "getPatients_fetch ?q twenty_five_patients = Inl (Thrown ''TypeError'')"
    by (simp add: getPatients_fetch_def twenty_five_snapshot k Let_def l)
  have g: "fst (getPatients ?q 0 (twenty_five_patients, [])) = Inl (Thrown ''TypeError'')"
    by (simp add: getPatients_def f getCachedData_or_fetch_def map_get_def)
  have c: "map length (chunks_from 0 ?ids) = [10, 10, 5]"
    unfolding twenty_five_ids by (simp add: chunks_from.simps)
  have n: "length (patientCounts_queries (map Val ?ids)) = 3"
    unfolding twenty_five_ids by (simp add: patientCounts_queries_def chunks_from.simps)
  have d: "length ?ids = 25 \<and> distinct ?ids"
    unfolding twenty_five_ids by simp
  show ?thesis
    apply (rule exI[of _ "rev twenty_five_patients"])
    apply (rule exI[of _ ?ids])
    apply (simp only: twenty_five_snapshot l f g c n d)
    done
qed

section \<open>Reading the caches\<close>

text \<open>
  What each cache answers for a key that was last stored at time \<open>t0\<close>, read at
  time \<open>t1\<close>: the stored data while \<open>t1 - t0\<close> is below the time-to-live, and
  a miss (no error) from then on, as for a key that was never stored.
\<close>

lemma getCachedData_after_set:
  "getCachedData (setCachedData cache t0 key d) t1 key =
     (if t1 - t0 < CACHE_TTL_therapists then Some d else None)"
  by (simp add: getCachedData_def setCachedData_def map_get_map_set)

lemma getCachedData_absent:
  "map_get cache key = None \<Longrightarrow> getCachedData cache t1 key = None"
  by (simp add: getCachedData_def)

lemma getCachedData_or_fetch_after_set:
  "getCachedData_or_fetch (map_set cache key \<lparr>data = d, timestamp = t0\<rparr>) t1 key fetched ttl =
     (if t1 - t0 < ttl then (Inr d, map_set cache key \<lparr>data = d, timestamp = t0\<rparr>)
      else (case fetched of
              Inl e \<Rightarrow> (Inl e, map_set cache key \<lparr>data = d, timestamp = t0\<rparr>)
            | Inr d' \<Rightarrow> (Inr d', map_set (map_set cache key \<lparr>data = d, timestamp = t0\<rparr>) key
                                   \<lparr>data = d', timestamp = t1\<rparr>)))"
  by (simp add: getCachedData_or_fetch_def map_get_map_set)

lemma cacheMiddleware_after_set:
  assumes "req_method req = ''GET''"
  shows "cacheMiddleware ttl t1 req next
           (map_set cache (mw_key req) \<lparr>data = d, timestamp = t0\<rparr>, s) =
         (if t1 - t0 < ttl
          then (d, (map_set cache (mw_key req) \<lparr>data = d, timestamp = t0\<rparr>, s))
          else (fst (next s),
                (map_set (map_set cache (mw_key req) \<lparr>data = d, timestamp = t0\<rparr>)
                   (mw_key req) \<lparr>data = fst (next s), timestamp = t1\<rparr>,
                 snd (next s))))"
  using assms by (simp add: cacheMiddleware_def map_get_map_set split_beta Let_def)

text \<open>
  C4. The router passes 300, 600 and 1800 to \<open>cacheMiddleware\<close>, which compares
  them with a difference of \<open>Date.now()\<close> values, that is with milliseconds. With
  a handler that counts its calls: the list route stores the first answer at time 0,
  still answers it at 299 ms, and at 1000 ms (one second, far less than five minutes)
  it misses and runs the handler again.
\<close>

theorem route_ttl_is_in_milliseconds:
  "therapists_list_ttl = 300 \<and> therapists_detail_ttl = 300 \<and>
   therapists_summary_ttl = 600 \<and> therapists_specializations_ttl = 1800 \<and>
   (\<exists>c1. cacheMiddleware therapists_list_ttl 0 list_request (\<lambda>n. (n, Suc n)) ([], 0)
            = (0, (c1, Suc 0)) \<and>
         cacheMiddleware therapists_list_ttl 299 list_request (\<lambda>n. (n, Suc n)) (c1, Suc 0)
            = (0, (c1, Suc 0)) \<and>
         fst (cacheMiddleware therapists_list_ttl 1000 list_request (\<lambda>n. (n, Suc n)) (c1, Suc 0))
            = Suc 0) \<and>
   (1000 :: int) < 5 * 60 * 1000"
  by (simp add: therapists_list_ttl_def therapists_detail_ttl_def therapists_summary_ttl_def
        therapists_specializations_ttl_def cacheMiddleware_def list_request_def mw_key_def
        map_get_def)

section \<open>What a mutation leaves in the caches\<close>

text \<open>
  C8. \<open>createTherapist\<close> clears the therapist controller's map, but nothing ever
  clears the map of the cache middleware. A list request, the creation of a therapist
  100 ms later and the same list request after another 100 ms: the third response is
  the page of the first one, without the new therapist that a fetch from the store
  lists first.

  The therapist controller does not touch the patient controller's map either: one
  minute after \<open>N\<close> has been assigned to \<open>T\<close> through the therapist endpoint,
  the patient list still answers the page cached before, in which \<open>N\<close> has no
  therapist and \<open>A\<close> and \<open>B\<close> still have theirs.
\<close>

theorem stale_page_after_mutation:
  "(\<exists>page srv1 created srv2 srv3 fresh.
      GET_therapists no_params list_request 0 (fresh_server two_therapists)
        = (Inr page, srv1) \<and>
      map t_id (items page) = [''t1'', ''t2''] \<and>
      POST_therapists eve_body ''2025-03-01T00:00:00.000Z'' 100 ''t3'' srv1
        = (Inr created, srv2) \<and>
      therapist_cache srv2 = [] \<and>
      middleware_cache srv2 = middleware_cache srv1 \<and>
      GET_therapists no_params list_request 200 srv2 = (Inr page, srv3) \<and>
      getTherapists_fetch no_params (users srv2) = Inr fresh \<and>
      map t_id (items fresh) = [''t3'', ''t1'', ''t2'']) \<and>
   (\<exists>page srv1 r srv2 srv3.
      GET_patients no_patient_params 0 (fresh_server assign_db) = (Inr page, srv1) \<and>
      map (\<lambda>p. (p_id p, assignedTherapist (p_data p))) (items page) =
        [(''N'', Undefined), (''P'', Undefined),
         (''B'', Val ''uid-T''), (''A'', Val ''uid-T'')] \<and>
      PUT_assign_patients ''T'' (Some [''N'']) ''2025-03-01T00:00:00.000Z'' srv1
        = (Inr r, srv2) \<and>
      map (\<lambda>i. map_option assignedTherapist (doc_get (users srv2) i)) [''N'', ''P'', ''B'', ''A''] =
        [Some (Val ''uid-T''), Some Undefined, Some Undefined, Some Undefined] \<and>
      GET_patients no_patient_params 60000 srv2 = (Inr page, srv3))"
proof -
  have a: "\<exists>page srv1 created srv2 srv3 fresh.
      GET_therapists no_params list_request 0 (fresh_server two_therapists)
        = (Inr page, srv1) \<and>
      map t_id (items page) = [''t1'', ''t2''] \<and>
      POST_therapists eve_body ''2025-03-01T00:00:00.000Z'' 100 ''t3'' srv1
        = (Inr created, srv2) \<and>
      therapist_cache srv2 = [] \<and>
      middleware_cache srv2 = middleware_cache srv1 \<and>
      GET_therapists no_params list_request 200 srv2 = (Inr page, srv3) \<and>
      getTherapists_fetch no_params (users srv2) = Inr fresh \<and>
      map t_id (items fresh) = [''t3'', ''t1'', ''t2'']"
    by (simp add: GET_therapists_def POST_therapists_def createTherapist_def
          new_therapist_data_def query_where_def cacheMiddleware_def mw_key_def
          therapists_list_ttl_def list_request_def fresh_server_def eve_body_def map_clear_def
          listing_defs no_params_def two_therapists_def therapist_at_def empty_doc_def Let_def)
  have b: "\<exists>page srv1 r srv2 srv3.
      GET_patients no_patient_params 0 (fresh_server assign_db) = (Inr page, srv1) \<and>
      map (\<lambda>p. (p_id p, assignedTherapist (p_data p))) (items page) =
        [(''N'', Undefined), (''P'', Undefined),
         (''B'', Val ''uid-T''), (''A'', Val ''uid-T'')] \<and>
      PUT_assign_patients ''T'' (Some [''N'']) ''2025-03-01T00:00:00.000Z'' srv1
        = (Inr r, srv2) \<and>
      map (\<lambda>i. map_option assignedTherapist (doc_get (users srv2) i)) [''N'', ''P'', ''B'', ''A''] =
        [Some (Val ''uid-T''), Some Undefined, Some Undefined, Some Undefined] \<and>
      GET_patients no_patient_params 60000 srv2 = (Inr page, srv3)"
    by (simp add: GET_patients_def PUT_assign_patients_def assignPatientsToTherapist_def
          assign_batch_def info_defined_def spread_def map_clear_def fresh_server_def CACHE_TTL_patients_def
          listing_defs no_patient_params_def assign_db_def therapist_T_def patient_of_T_def
          new_patient_def therapist_info_of_def empty_doc_def Let_def show_nat.simps
          map_get_map_set)
  show ?thesis using a b by (rule conjI)
qed

end
